theory Spec2Isabelle
  imports Complex_Main "HOL-Library.Sublist"
begin

section \<open>Exceptions\<close>

text \<open>
  A Python exception is a value; a function that may raise returns \<open>pyexc + 'a\<close>
  with \<open>Inl\<close> for the raised exception. \<open>ValueError\<close> is what the repository's own
  code and NumPy's \<open>reshape\<close> raise, \<open>AttributeError\<close> what a call of a method the
  object lacks raises; \<open>BackendException\<close> stands for whatever the solver library
  raises, with its raw message.
\<close>

datatype pyexc = ValueError string | AttributeError string | BackendException string

section \<open>check\_problem\_constraints.py\<close>

text \<open>
  The four arguments are either \<open>None\<close> or some matrix or vector; the function only
  tests them against \<open>None\<close>, so their types are left open.
\<close>

definition check_problem_constraints ::
  "'g option \<Rightarrow> 'h option \<Rightarrow> 'a option \<Rightarrow> 'b option \<Rightarrow> pyexc + unit" where
  "check_problem_constraints G h A b =
     (if G = None \<and> h \<noteq> None then
        Inl (ValueError ''incomplete inequality constraint (missing h)'')
      else if G \<noteq> None \<and> h = None then
        Inl (ValueError ''incomplete inequality constraint (missing G)'')
      else if A = None \<and> b \<noteq> None then
        Inl (ValueError ''incomplete equality constraint (missing b)'')
      else if A \<noteq> None \<and> b = None then
        Inl (ValueError ''incomplete equality constraint (missing A)'')
      else Inr ())"

section \<open>Numbers, arrays and matrices\<close>

text \<open>
  An array entry is a number or one of the two infinities; the code and the box
  canonicalizer only negate entries and test them for finiteness, both of which are
  exact on floating-point numbers.
\<close>

datatype scalar = Fin real | PInf | NInf

fun neg :: "scalar \<Rightarrow> scalar" where
  "neg (Fin r) = Fin (- r)"
| "neg PInf = NInf"
| "neg NInf = PInf"

fun isfinite :: "scalar \<Rightarrow> bool" where
  "isfinite (Fin r) = True"
| "isfinite PInf = False"
| "isfinite NInf = False"

type_synonym vector = "scalar list"

text \<open>
  A \<open>numpy.ndarray\<close> is one- or two-dimensional (a list of rows). A
  \<open>scipy.sparse.csc_matrix\<close> is given by what the code reads from it: its \<open>shape\<close>
  and the \<open>data\<close>, \<open>row\<close> and \<open>col\<close> arrays of \<open>M.tocoo()\<close>.
\<close>

datatype ndarray = Array1 vector | Array2 "vector list"

datatype csc_matrix =
  CscMatrix (csc_shape: "nat \<times> nat") (coo_data: "scalar list")
            (coo_row: "nat list") (coo_col: "nat list")

datatype array_like = Ndarray ndarray | Csc csc_matrix

text \<open>
  The two constructors of the solver library, \<open>cvxopt.matrix(M)\<close> and
  \<open>cvxopt.spmatrix(data, rows, cols, size)\<close>, applied to their arguments.
\<close>

datatype cvx =
  CvxMatrix ndarray
| CvxSpMatrix "scalar list" "nat list" "nat list" "nat \<times> nat"

section \<open>solvers/cvxopt\_.py\<close>

subsection \<open>The solver library's option table\<close>

text \<open>
  \<open>cvxopt.solvers.options\<close> is a dictionary shared by the whole process. Loading the
  module writes \<open>show_progress\<close> into it once.
\<close>

datatype optval = OBool bool | OInt int | OFloat real

type_synonym options = "string \<rightharpoonup> optval"

definition module_load :: "options \<Rightarrow> options" where
  "module_load options = options(''show_progress'' \<mapsto> OBool False)"

subsection \<open>to\_cvxopt\<close>

fun to_cvxopt :: "array_like \<Rightarrow> cvx" where
  "to_cvxopt (Ndarray M) = CvxMatrix M"
| "to_cvxopt (Csc M) = CvxSpMatrix (coo_data M) (coo_row M) (coo_col M) (csc_shape M)"

subsection \<open>The box canonicalizer\<close>

text \<open>
  Modelled from the spec: \<open>linear_from_box_inequalities\<close> is imported from
  \<open>conversions.py\<close>, which is not among the sources. The spec (4.2) has it append,
  below the rows of \<open>G\<close> and the entries of \<open>h\<close>, the row \<open>-e\<^sub>i\<close> with right-hand side
  \<open>-lb\<^sub>i\<close> for each finite \<open>lb\<^sub>i\<close> and then the row \<open>e\<^sub>i\<close> with right-hand side \<open>ub\<^sub>i\<close>
  for each finite \<open>ub\<^sub>i\<close>, in index order, nothing for an infinite entry, and return
  absent values when nothing was given and nothing is appended.
\<close>

definition basis_row :: "nat \<Rightarrow> nat \<Rightarrow> vector" where
  "basis_row n i = (replicate n (Fin 0))[i := Fin 1]"

fun lower_rows :: "nat \<Rightarrow> nat \<Rightarrow> vector \<Rightarrow> (vector \<times> scalar) list" where
  "lower_rows n i [] = []"
| "lower_rows n i (v # vs) =
     (if isfinite v then (map neg (basis_row n i), neg v) # lower_rows n (Suc i) vs
      else lower_rows n (Suc i) vs)"

fun upper_rows :: "nat \<Rightarrow> nat \<Rightarrow> vector \<Rightarrow> (vector \<times> scalar) list" where
  "upper_rows n i [] = []"
| "upper_rows n i (v # vs) =
     (if isfinite v then (basis_row n i, v) # upper_rows n (Suc i) vs
      else upper_rows n (Suc i) vs)"

definition box_rows :: "vector option \<Rightarrow> vector option \<Rightarrow> (vector \<times> scalar) list" where
  "box_rows lb ub =
     (case lb of None \<Rightarrow> [] | Some l \<Rightarrow> lower_rows (length l) 0 l) @
     (case ub of None \<Rightarrow> [] | Some u \<Rightarrow> upper_rows (length u) 0 u)"

text \<open>
  Stacking rows below a matrix keeps its storage format: a dense matrix gets the rows,
  a sparse one the triplets of their non-zero entries, its row count growing.
\<close>

fun row_triplets :: "nat \<Rightarrow> nat \<Rightarrow> vector \<Rightarrow> (scalar \<times> nat \<times> nat) list" where
  "row_triplets r c [] = []"
| "row_triplets r c (v # vs) =
     (if v = Fin 0 then row_triplets r (Suc c) vs
      else (v, r, c) # row_triplets r (Suc c) vs)"

fun rows_triplets :: "nat \<Rightarrow> vector list \<Rightarrow> (scalar \<times> nat \<times> nat) list" where
  "rows_triplets r [] = []"
| "rows_triplets r (row # rows) = row_triplets r 0 row @ rows_triplets (Suc r) rows"

definition csc_vstack :: "csc_matrix \<Rightarrow> vector list \<Rightarrow> csc_matrix" where
  "csc_vstack M rows =
     (let new = rows_triplets (fst (csc_shape M)) rows
      in CscMatrix (fst (csc_shape M) + length rows, snd (csc_shape M))
           (coo_data M @ map fst new)
           (coo_row M @ map (fst \<circ> snd) new)
           (coo_col M @ map (snd \<circ> snd) new))"

fun vstack :: "array_like option \<Rightarrow> vector list \<Rightarrow> array_like" where
  "vstack None rows = Ndarray (Array2 rows)"
| "vstack (Some (Ndarray (Array2 g))) rows = Ndarray (Array2 (g @ rows))"
| "vstack (Some (Ndarray (Array1 g))) rows = Ndarray (Array2 (g # rows))"
| "vstack (Some (Csc M)) rows = Csc (csc_vstack M rows)"

definition linear_from_box_inequalities ::
  "array_like option \<Rightarrow> vector option \<Rightarrow> vector option \<Rightarrow> vector option \<Rightarrow>
   array_like option \<times> vector option" where
  "linear_from_box_inequalities G h lb ub =
     (let new = box_rows lb ub
      in if new = [] then (G, h)
         else (Some (vstack G (map fst new)),
               Some ((case h of None \<Rightarrow> [] | Some hv \<Rightarrow> hv) @ map snd new)))"

subsection \<open>cvxopt\_solve\_qp\<close>

text \<open>
  The five \<open>if option:\<close> statements test the truth value of the argument: \<open>None\<close> is
  false, and so is the number zero.
\<close>

definition update_options ::
  "options \<Rightarrow> bool \<Rightarrow> int option \<Rightarrow> real option \<Rightarrow> real option \<Rightarrow> real option \<Rightarrow>
   int option \<Rightarrow> options" where
  "update_options options verbose maxiters abstol reltol feastol refinement =
     (let options = options(''show_progress'' \<mapsto> OBool verbose);
          options = (case maxiters of
                       Some v \<Rightarrow> if v \<noteq> 0 then options(''maxiters'' \<mapsto> OInt v) else options
                     | None \<Rightarrow> options);
          options = (case abstol of
                       Some v \<Rightarrow> if v \<noteq> 0 then options(''abstol'' \<mapsto> OFloat v) else options
                     | None \<Rightarrow> options);
          options = (case reltol of
                       Some v \<Rightarrow> if v \<noteq> 0 then options(''reltol'' \<mapsto> OFloat v) else options
                     | None \<Rightarrow> options);
          options = (case feastol of
                       Some v \<Rightarrow> if v \<noteq> 0 then options(''feastol'' \<mapsto> OFloat v) else options
                     | None \<Rightarrow> options);
          options = (case refinement of
                       Some v \<Rightarrow> if v \<noteq> 0 then options(''refinement'' \<mapsto> OInt v) else options
                     | None \<Rightarrow> options)
      in options)"

text \<open>
  What \<open>qp\<close> is called with: the positional \<open>args\<close>, the four \<open>kwargs\<close>, \<open>solver\<close>
  and the \<open>initvals\<close> dictionary.
\<close>

record qp_call =
  call_P :: cvx
  call_q :: cvx
  call_G :: "cvx option"
  call_h :: "cvx option"
  call_A :: "cvx option"
  call_b :: "cvx option"
  call_solver :: "string option"
  call_initvals :: "(string \<times> cvx) list option"

definition qp_arguments ::
  "array_like \<Rightarrow> vector \<Rightarrow> array_like option \<Rightarrow> vector option \<Rightarrow> array_like option \<Rightarrow>
   vector option \<Rightarrow> string option \<Rightarrow> vector option \<Rightarrow> qp_call" where
  "qp_arguments P q G h A b solver initvals =
     \<lparr> call_P = to_cvxopt P,
       call_q = to_cvxopt (Ndarray (Array1 q)),
       call_G = (case (G, h) of (Some G', Some h') \<Rightarrow> Some (to_cvxopt G') | _ \<Rightarrow> None),
       call_h = (case (G, h) of (Some G', Some h') \<Rightarrow> Some (to_cvxopt (Ndarray (Array1 h')))
                 | _ \<Rightarrow> None),
       call_A = (case (A, b) of (Some A', Some b') \<Rightarrow> Some (to_cvxopt A') | _ \<Rightarrow> None),
       call_b = (case (A, b) of (Some A', Some b') \<Rightarrow> Some (to_cvxopt (Ndarray (Array1 b')))
                 | _ \<Rightarrow> None),
       call_solver = solver,
       call_initvals = (case initvals of None \<Rightarrow> None
                        | Some v \<Rightarrow> Some [(''x'', to_cvxopt (Ndarray (Array1 v)))]) \<rparr>"

text \<open>
  The solver library's \<open>qp\<close> is a parameter: it reads the option table and its
  arguments, and raises or returns a dictionary of which the code reads \<open>status\<close> and,
  when the status contains \<open>optimal\<close>, the dense matrix \<open>x\<close> (given by its rows).
\<close>

record solution =
  sol_status :: string
  sol_x :: "vector list"

type_synonym backend = "options \<Rightarrow> qp_call \<Rightarrow> pyexc + solution"

text \<open>
  \<open>array(sol["x"]).reshape((q.shape[0],))\<close>: NumPy raises \<open>ValueError\<close> unless the
  number of entries is the requested length.
\<close>

definition reshape :: "vector list \<Rightarrow> nat \<Rightarrow> pyexc + vector" where
  "reshape rows n =
     (if length (concat rows) = n then Inr (concat rows)
      else Inl (ValueError ''cannot reshape array''))"

text \<open>The last three lines of the function: what is returned for a solver result.\<close>

definition solution_or_none :: "vector \<Rightarrow> solution \<Rightarrow> pyexc + vector option" where
  "solution_or_none q sol =
     (if \<not> sublist ''optimal'' (sol_status sol) then Inr None
      else (case reshape (sol_x sol) (length q) of
              Inl e \<Rightarrow> Inl e
            | Inr v \<Rightarrow> Inr (Some v)))"

text \<open>
  The function takes the option table as it is before the call and returns it as it is
  after, together with the exception raised or the value returned (\<open>None\<close> or the
  solution vector).
\<close>

definition cvxopt_solve_qp ::
  "backend \<Rightarrow> options \<Rightarrow> array_like \<Rightarrow> vector \<Rightarrow> array_like option \<Rightarrow> vector option \<Rightarrow>
   array_like option \<Rightarrow> vector option \<Rightarrow> vector option \<Rightarrow> vector option \<Rightarrow>
   string option \<Rightarrow> vector option \<Rightarrow> bool \<Rightarrow> int option \<Rightarrow> real option \<Rightarrow> real option \<Rightarrow>
   real option \<Rightarrow> int option \<Rightarrow> options \<times> (pyexc + vector option)" where
  "cvxopt_solve_qp qp options P q G h A b lb ub solver initvals verbose
                   maxiters abstol reltol feastol refinement =
     (let (G, h) = (if lb \<noteq> None \<or> ub \<noteq> None
                    then linear_from_box_inequalities G h lb ub else (G, h));
          options = update_options options verbose maxiters abstol reltol feastol refinement;
          call = qp_arguments P q G h A b solver initvals
      in (options,
          case qp options call of
            Inl e \<Rightarrow> Inl e
          | Inr sol \<Rightarrow> solution_or_none q sol))"

text \<open>The call \<open>cvxopt_solve_qp(P, q)\<close>: every other parameter at its default.\<close>

definition cvxopt_solve_qp_defaults ::
  "backend \<Rightarrow> options \<Rightarrow> array_like \<Rightarrow> vector \<Rightarrow> options \<times> (pyexc + vector option)" where
  "cvxopt_solve_qp_defaults qp options P q =
     cvxopt_solve_qp qp options P q None None None None None None None None False
                     None None None None None"

section \<open>The same code on a store\<close>

text \<open>
  Python passes arrays by reference, so whether a call changes the caller's arrays is a
  question about a store. Here the arguments are references into a store of objects
  (NumPy and SciPy arrays, and the solver library's matrices); a computation takes the
  store and returns the new store with the exception raised or the value returned.
  References are never dangling: \<open>next_ref\<close> is the first unused one, and allocation
  takes it.
\<close>

type_synonym ref = nat

datatype obj = Array array_like | Cvx cvx

record store =
  cells :: "ref \<Rightarrow> obj"
  next_ref :: ref

type_synonym 'a run = "store \<Rightarrow> store \<times> (pyexc + 'a)"

definition return_run :: "'a \<Rightarrow> 'a run" where
  "return_run x s = (s, Inr x)"

definition raise_run :: "pyexc \<Rightarrow> 'a run" where
  "raise_run e s = (s, Inl e)"

definition bind_run :: "'a run \<Rightarrow> ('a \<Rightarrow> 'b run) \<Rightarrow> 'b run" where
  "bind_run m f s = (case m s of (s', Inl e) \<Rightarrow> (s', Inl e) | (s', Inr x) \<Rightarrow> f x s')"

definition alloc :: "obj \<Rightarrow> ref run" where
  "alloc x s = (s\<lparr> cells := (cells s)(next_ref s := x), next_ref := Suc (next_ref s) \<rparr>,
                Inr (next_ref s))"

text \<open>
  \<open>to_cvxopt\<close>: both constructors of the solver library build a new object from the
  contents of \<open>M\<close>; an object of the solver library itself has no \<open>tocoo\<close> method.
\<close>

definition to_cvxopt_s :: "ref \<Rightarrow> ref run" where
  "to_cvxopt_s M s =
     (case cells s M of
        Array a \<Rightarrow> alloc (Cvx (to_cvxopt a)) s
      | Cvx c \<Rightarrow> raise_run (AttributeError ''tocoo'') s)"

text \<open>
  Modelled from the spec: \<open>linear_from_box_inequalities\<close> (see above) on the store. The
  spec (3) has every conversion make a copy that the call owns, so the stacked matrix
  and vector are new objects; with nothing to append the arguments are returned as they
  are. An argument that is not an array, or a bound that is not a vector, is rejected.
\<close>

definition load_array :: "store \<Rightarrow> ref option \<Rightarrow> pyexc + array_like option" where
  "load_array s r =
     (case r of
        None \<Rightarrow> Inr None
      | Some r' \<Rightarrow> (case cells s r' of
                      Array a \<Rightarrow> Inr (Some a)
                    | Cvx c \<Rightarrow> Inl (ValueError ''not an array'')))"

definition load_vector :: "store \<Rightarrow> ref option \<Rightarrow> pyexc + vector option" where
  "load_vector s r =
     (case r of
        None \<Rightarrow> Inr None
      | Some r' \<Rightarrow> (case cells s r' of
                      Array (Ndarray (Array1 v)) \<Rightarrow> Inr (Some v)
                    | _ \<Rightarrow> Inl (ValueError ''not a vector'')))"

definition linear_from_box_inequalities_s ::
  "ref option \<Rightarrow> ref option \<Rightarrow> ref option \<Rightarrow> ref option \<Rightarrow> (ref option \<times> ref option) run" where
  "linear_from_box_inequalities_s G h lb ub s =
     (case (load_array s G, load_vector s h, load_vector s lb, load_vector s ub) of
        (Inr G0, Inr h0, Inr lb0, Inr ub0) \<Rightarrow>
          if box_rows lb0 ub0 = [] then return_run (G, h) s
          else (case linear_from_box_inequalities G0 h0 lb0 ub0 of
                  (Some G1, Some h1) \<Rightarrow>
                    bind_run (alloc (Array G1))
                      (\<lambda>G'. bind_run (alloc (Array (Ndarray (Array1 h1))))
                        (\<lambda>h'. return_run (Some G', Some h'))) s
                | _ \<Rightarrow> return_run (G, h) s)
      | (Inl e, _, _, _) \<Rightarrow> raise_run e s
      | (_, Inl e, _, _) \<Rightarrow> raise_run e s
      | (_, _, Inl e, _) \<Rightarrow> raise_run e s
      | (_, _, _, Inl e) \<Rightarrow> raise_run e s)"

text \<open>The arguments of \<open>qp\<close>, now references to the converted objects.\<close>

record qp_call_s =
  ref_P :: ref
  ref_q :: ref
  ref_G :: "ref option"
  ref_h :: "ref option"
  ref_A :: "ref option"
  ref_b :: "ref option"
  ref_solver :: "string option"
  ref_initvals :: "(string \<times> ref) list option"

definition call_refs :: "qp_call_s \<Rightarrow> ref set" where
  "call_refs c =
     {ref_P c, ref_q c} \<union> set_option (ref_G c) \<union> set_option (ref_h c) \<union>
     set_option (ref_A c) \<union> set_option (ref_b c) \<union>
     (case ref_initvals c of None \<Rightarrow> {} | Some d \<Rightarrow> snd ` set d)"

definition convert_pair :: "ref option \<Rightarrow> ref option \<Rightarrow> (ref option \<times> ref option) run" where
  "convert_pair G h =
     (case (G, h) of
        (Some G', Some h') \<Rightarrow>
          bind_run (to_cvxopt_s G')
            (\<lambda>Gc. bind_run (to_cvxopt_s h') (\<lambda>hc. return_run (Some Gc, Some hc)))
      | _ \<Rightarrow> return_run (None, None))"

definition qp_arguments_s ::
  "ref \<Rightarrow> ref \<Rightarrow> ref option \<Rightarrow> ref option \<Rightarrow> ref option \<Rightarrow> ref option \<Rightarrow> string option \<Rightarrow>
   ref option \<Rightarrow> qp_call_s run" where
  "qp_arguments_s P q G h A b solver initvals =
     bind_run (to_cvxopt_s P) (\<lambda>Pc.
     bind_run (to_cvxopt_s q) (\<lambda>qc.
     bind_run (convert_pair G h) (\<lambda>Gh.
     bind_run (convert_pair A b) (\<lambda>Ab.
     bind_run (case initvals of
                 None \<Rightarrow> return_run None
               | Some v \<Rightarrow> bind_run (to_cvxopt_s v) (\<lambda>x. return_run (Some [(''x'', x)])))
       (\<lambda>iv. return_run
          \<lparr> ref_P = Pc, ref_q = qc, ref_G = fst Gh, ref_h = snd Gh,
            ref_A = fst Ab, ref_b = snd Ab, ref_solver = solver, ref_initvals = iv \<rparr>)))))"

text \<open>
  The solver gets the store too, and may change it. \<open>q.shape[0]\<close> is read from the
  object \<open>q\<close> refers to.
\<close>

type_synonym backend_s = "options \<Rightarrow> qp_call_s \<Rightarrow> solution run"

fun shape0 :: "obj \<Rightarrow> nat" where
  "shape0 (Array (Ndarray (Array1 v))) = length v"
| "shape0 (Array (Ndarray (Array2 rows))) = length rows"
| "shape0 (Array (Csc M)) = fst (csc_shape M)"
| "shape0 (Cvx c) = 0"

definition cvxopt_solve_qp_s ::
  "backend_s \<Rightarrow> options \<Rightarrow> ref \<Rightarrow> ref \<Rightarrow> ref option \<Rightarrow> ref option \<Rightarrow>
   ref option \<Rightarrow> ref option \<Rightarrow> ref option \<Rightarrow> ref option \<Rightarrow>
   string option \<Rightarrow> ref option \<Rightarrow> bool \<Rightarrow> int option \<Rightarrow> real option \<Rightarrow> real option \<Rightarrow>
   real option \<Rightarrow> int option \<Rightarrow> store \<Rightarrow> options \<times> store \<times> (pyexc + vector option)" where
  "cvxopt_solve_qp_s qp options P q G h A b lb ub solver initvals verbose
                     maxiters abstol reltol feastol refinement s =
     (case (if lb \<noteq> None \<or> ub \<noteq> None
            then linear_from_box_inequalities_s G h lb ub else return_run (G, h)) s of
        (s, Inl e) \<Rightarrow> (options, s, Inl e)
      | (s, Inr (G, h)) \<Rightarrow>
          (let options = update_options options verbose maxiters abstol reltol feastol
                           refinement
           in case bind_run (qp_arguments_s P q G h A b solver initvals) (qp options) s of
                (s, Inl e) \<Rightarrow> (options, s, Inl e)
              | (s, Inr sol) \<Rightarrow>
                  (options, s,
                   if \<not> sublist ''optimal'' (sol_status sol) then Inr None
                   else (case reshape (sol_x sol) (shape0 (cells s q)) of
                           Inl e \<Rightarrow> Inl e
                         | Inr v \<Rightarrow> Inr (Some v)))))"

text \<open>
  What is assumed of the solver library: it may change or replace the objects it is
  handed and allocate new ones, and touches no other object. \<open>frame n m Q\<close> says that
  the computation \<open>m\<close>, started on a store whose first \<open>n\<close> objects are allocated,
  leaves these \<open>n\<close> objects as they are and returns a value satisfying \<open>Q\<close>.
\<close>

definition respects_frame :: "backend_s \<Rightarrow> bool" where
  "respects_frame qp =
     (\<forall>options c s. next_ref s \<le> next_ref (fst (qp options c s)) \<and>
        (\<forall>r. r < next_ref s \<and> r \<notin> call_refs c \<longrightarrow>
              cells (fst (qp options c s)) r = cells s r))"

definition frame :: "ref \<Rightarrow> 'a run \<Rightarrow> ('a \<Rightarrow> bool) \<Rightarrow> bool" where
  "frame n m Q =
     (\<forall>s. n \<le> next_ref s \<longrightarrow>
        n \<le> next_ref (fst (m s)) \<and> (\<forall>r < n. cells (fst (m s)) r = cells s r) \<and>
        (\<forall>v. snd (m s) = Inr v \<longrightarrow> Q v))"

text \<open>
  To compare with the functions on values: a solver on values runs on the store by
  reading the objects it is handed; \<open>holds s r a\<close> says that the optional reference
  \<open>r\<close> is allocated in \<open>s\<close> and refers to the array \<open>a\<close> (both absent, or both
  present); \<open>extends s s'\<close> that \<open>s'\<close> has every object of \<open>s\<close>, unchanged.
\<close>

definition cvx_at :: "store \<Rightarrow> ref \<Rightarrow> cvx" where
  "cvx_at s r = (case cells s r of Cvx c \<Rightarrow> c | Array a \<Rightarrow> to_cvxopt a)"

definition load_call :: "store \<Rightarrow> qp_call_s \<Rightarrow> qp_call" where
  "load_call s c =
     \<lparr> call_P = cvx_at s (ref_P c), call_q = cvx_at s (ref_q c),
       call_G = map_option (cvx_at s) (ref_G c), call_h = map_option (cvx_at s) (ref_h c),
       call_A = map_option (cvx_at s) (ref_A c), call_b = map_option (cvx_at s) (ref_b c),
       call_solver = ref_solver c,
       call_initvals = map_option (map (\<lambda>(k, r). (k, cvx_at s r))) (ref_initvals c) \<rparr>"

definition lift_backend :: "backend \<Rightarrow> backend_s" where
  "lift_backend qp options c s = (s, qp options (load_call s c))"

definition holds :: "store \<Rightarrow> ref option \<Rightarrow> array_like option \<Rightarrow> bool" where
  "holds s r a =
     (case (r, a) of
        (None, None) \<Rightarrow> True
      | (Some r', Some a') \<Rightarrow> r' < next_ref s \<and> cells s r' = Array a'
      | _ \<Rightarrow> False)"

definition as_array :: "vector option \<Rightarrow> array_like option" where
  "as_array v = map_option (\<lambda>x. Ndarray (Array1 x)) v"

definition extends :: "store \<Rightarrow> store \<Rightarrow> bool" where
  "extends s s' = (next_ref s \<le> next_ref s' \<and> (\<forall>r < next_ref s. cells s' r = cells s r))"

section \<open>Matrices as lists of rows\<close>

text \<open>
  To state what a matrix contains whatever its storage, every matrix is read as its list
  of rows: a sparse one has, at each position, the value of the first triplet stored for
  that position, and zero where there is none. A sparse matrix is well formed when its
  three triplet arrays have one length and every row index is below the row count.
  \<open>finite_indices\<close> lists, in order, the positions of the finite entries of a vector.
\<close>

definition triplets :: "csc_matrix \<Rightarrow> (scalar \<times> nat \<times> nat) list" where
  "triplets M = zip (coo_data M) (zip (coo_row M) (coo_col M))"

definition coo_entry :: "csc_matrix \<Rightarrow> nat \<Rightarrow> nat \<Rightarrow> scalar" where
  "coo_entry M r c =
     (case find (\<lambda>(v, r', c'). r' = r \<and> c' = c) (triplets M) of
        None \<Rightarrow> Fin 0
      | Some (v, r', c') \<Rightarrow> v)"

fun matrix_rows :: "array_like \<Rightarrow> vector list" where
  "matrix_rows (Ndarray (Array2 g)) = g"
| "matrix_rows (Ndarray (Array1 g)) = [g]"
| "matrix_rows (Csc M) =
     map (\<lambda>r. map (coo_entry M r) [0..<snd (csc_shape M)]) [0..<fst (csc_shape M)]"

definition csc_wf :: "csc_matrix \<Rightarrow> bool" where
  "csc_wf M =
     (length (coo_row M) = length (coo_data M) \<and> length (coo_col M) = length (coo_data M) \<and>
      (\<forall>r \<in> set (coo_row M). r < fst (csc_shape M)))"

definition finite_indices :: "vector \<Rightarrow> nat list" where
  "finite_indices v = filter (\<lambda>i. isfinite (v ! i)) [0..<length v]"

definition rows_of :: "array_like option \<Rightarrow> vector list" where
  "rows_of G = (case G of None \<Rightarrow> [] | Some M \<Rightarrow> matrix_rows M)"

definition entries_of :: "vector option \<Rightarrow> vector" where
  "entries_of h = (case h of None \<Rightarrow> [] | Some v \<Rightarrow> v)"

text \<open>
  The solver library's matrices are read the same way, a dense right-hand side as the
  list of its entries.
\<close>

fun cvx_rows :: "cvx \<Rightarrow> vector list" where
  "cvx_rows (CvxMatrix a) = matrix_rows (Ndarray a)"
| "cvx_rows (CvxSpMatrix d r c shape) = matrix_rows (Csc (CscMatrix shape d r c))"

definition cvx_entries :: "cvx \<Rightarrow> vector" where
  "cvx_entries c = concat (cvx_rows c)"

text \<open>
  The rows and right-hand sides of spec 4.2 in the spec's words: for each finite \<open>lb\<^sub>i\<close>
  the row \<open>-e\<^sub>i\<close> and \<open>-lb\<^sub>i\<close>, then for each finite \<open>ub\<^sub>i\<close> the row \<open>e\<^sub>i\<close> and \<open>ub\<^sub>i\<close>,
  where \<open>e\<^sub>i\<close> has 1 at position \<open>i\<close> and 0 elsewhere.
\<close>

definition spec_box_rows :: "vector option \<Rightarrow> vector option \<Rightarrow> vector list" where
  "spec_box_rows lb ub =
     (case lb of None \<Rightarrow> []
      | Some l \<Rightarrow> map (\<lambda>i. map (\<lambda>k. if k = i then Fin (- 1) else Fin 0) [0..<length l])
                     (finite_indices l)) @
     (case ub of None \<Rightarrow> []
      | Some u \<Rightarrow> map (\<lambda>i. map (\<lambda>k. if k = i then Fin 1 else Fin 0) [0..<length u])
                     (finite_indices u))"

definition spec_box_rhs :: "vector option \<Rightarrow> vector option \<Rightarrow> vector" where
  "spec_box_rhs lb ub =
     (case lb of None \<Rightarrow> [] | Some l \<Rightarrow> map (\<lambda>i. neg (l ! i)) (finite_indices l)) @
     (case ub of None \<Rightarrow> [] | Some u \<Rightarrow> map (\<lambda>i. u ! i) (finite_indices u))"

section \<open>Example data\<close>

text \<open>
  Two solver stand-ins, one returning a one-variable result with a given status, one
  raising with a given message, and a one-variable problem.
\<close>

definition example_backend :: "string \<Rightarrow> backend" where
  "example_backend st options call = Inr \<lparr> sol_status = st, sol_x = [[Fin 1]] \<rparr>"

definition raising_backend :: "string \<Rightarrow> backend" where
  "raising_backend msg options call = Inl (BackendException msg)"

definition example_P :: array_like where
  "example_P = Ndarray (Array2 [[Fin 1]])"

definition example_q :: vector where
  "example_q = [Fin 0]"

text \<open>A solver stand-in that returns a point only when it is given no constraint.\<close>

definition echo_backend :: backend where
  "echo_backend options call =
     (if call_G call = None \<and> call_h call = None \<and> call_A call = None \<and> call_b call = None
      then Inr \<lparr> sol_status = ''optimal'', sol_x = [[Fin 0]] \<rparr>
      else Inl (BackendException ''constraints given''))"

text \<open>A two-variable problem and a sparse one-row inequality matrix.\<close>

definition example_P2 :: array_like where
  "example_P2 = Ndarray (Array2 [[Fin 1, Fin 0], [Fin 0, Fin 1]])"

definition example_q2 :: vector where
  "example_q2 = [Fin 0, Fin 0]"

definition example_G2 :: csc_matrix where
  "example_G2 = CscMatrix (1, 2) [Fin 3] [0] [1]"

text \<open>
  A solver stand-in that overwrites the two matrices it is handed, and a store holding
  the one-variable problem: \<open>P\<close> at reference 0, \<open>q\<close> at reference 1.
\<close>

definition scribbling_backend :: backend_s where
  "scribbling_backend options c s =
     (s\<lparr> cells := (cells s)(ref_P c := Cvx (CvxMatrix (Array2 [])),
                             ref_q c := Cvx (CvxMatrix (Array1 []))) \<rparr>,
      Inr \<lparr> sol_status = ''optimal'', sol_x = [[Fin 1]] \<rparr>)"

definition example_store :: store where
  "example_store =
     \<lparr> cells = (\<lambda>r. if r = 0 then Array example_P else Array (Ndarray (Array1 example_q))),
       next_ref = 2 \<rparr>"

text \<open>A solver stand-in that raises as the solver library does on an infeasible problem.\<close>

definition domain_error_backend :: backend where
  "domain_error_backend options call = Inl (ValueError ''domain error'')"

section \<open>The validator\<close>

text \<open>
  Claim C1. The validator raises exactly when one element of the pair (G, h) is present
  and the other absent, or one element of the pair (A, b) is present and the other
  absent; when each pair is complete or wholly absent it returns normally.
\<close>

theorem check_problem_constraints_raises_iff:
  "((\<exists>e. check_problem_constraints G h A b = Inl e) =
      ((G = None) \<noteq> (h = None) \<or> (A = None) \<noteq> (b = None))) \<and>
   ((G = None) = (h = None) \<and> (A = None) = (b = None) \<longrightarrow>
      check_problem_constraints G h A b = Inr ())"
  by (auto simp: check_problem_constraints_def)

theorem check_problem_constraints_raises_iff_witness:
  "(\<exists>e. check_problem_constraints (Some (1::nat)) (None::nat option)
          (None::nat option) (None::nat option) = Inl e) \<and>
   check_problem_constraints (Some (1::nat)) (Some (2::nat))
          (None::nat option) (None::nat option) = Inr ()"
  using check_problem_constraints_raises_iff
          [of "Some (1::nat)" "None::nat option" "None::nat option" "None::nat option"]
        check_problem_constraints_raises_iff
          [of "Some (1::nat)" "Some (2::nat)" "None::nat option" "None::nat option"]
  by simp

text \<open>
  Claim C9. Two calls of the validator whose arguments are absent at the same places
  behave alike, raising the same exception with the same message or both returning,
  whatever the matrices and vectors are and however they are stored (the two calls may
  even differ in the types of their arguments). The validator is a function of its
  four arguments alone and reads and writes nothing else.
\<close>

theorem check_problem_constraints_presence_only:
  "(G = None) = (G' = None) \<Longrightarrow> (h = None) = (h' = None) \<Longrightarrow>
   (A = None) = (A' = None) \<Longrightarrow> (b = None) = (b' = None) \<Longrightarrow>
   check_problem_constraints G h A b = check_problem_constraints G' h' A' b'"
  by (auto simp: check_problem_constraints_def)

theorem check_problem_constraints_presence_only_witness:
  "check_problem_constraints (Some (Ndarray (Array2 [[Fin 1, Fin 2]]))) (None :: vector option)
       (Some (Csc (CscMatrix (1, 2) [Fin 3] [0] [1]))) (Some [Fin 4])
     = check_problem_constraints (Some (Csc (CscMatrix (0, 2) [] [] []))) (None :: nat option)
         (Some (7 :: int)) (Some [PInf, NInf])"
  by (rule check_problem_constraints_presence_only) simp_all

section \<open>The solver interface\<close>

text \<open>
  For every solver the function is one call of it, on an option table and an argument
  record fixed by the inputs.
\<close>

lemma cvxopt_solve_qp_invokes:
  "cvxopt_solve_qp qp options P q G h A b lb ub solver initvals verbose
                   maxiters abstol reltol feastol refinement =
   (let GH = (if lb \<noteq> None \<or> ub \<noteq> None
              then linear_from_box_inequalities G h lb ub else (G, h));
        options' = update_options options verbose maxiters abstol reltol feastol refinement
    in (options',
        case qp options' (qp_arguments P q (fst GH) (snd GH) A b solver initvals) of
          Inl e \<Rightarrow> Inl e
        | Inr sol \<Rightarrow> solution_or_none q sol))"
  by (simp add: cvxopt_solve_qp_def Let_def split: prod.split)

lemma update_options_show_progress:
  "update_options options verbose maxiters abstol reltol feastol refinement ''show_progress''
     = Some (OBool verbose)"
  by (simp add: update_options_def Let_def split: option.split)

lemma solution_or_none_not_optimal:
  "\<not> sublist ''optimal'' (sol_status sol) \<Longrightarrow> solution_or_none q sol = Inr None"
  by (simp add: solution_or_none_def)

lemma solution_or_none_optimal:
  "sublist ''optimal'' (sol_status sol) \<Longrightarrow>
   solution_or_none q sol =
     (if length (concat (sol_x sol)) = length q then Inr (Some (concat (sol_x sol)))
      else Inl (ValueError ''cannot reshape array''))"
  by (simp add: solution_or_none_def reshape_def)

text \<open>
  Claim C7. In every call the solver's \<open>show_progress\<close> entry is set to the caller's
  \<open>verbose\<close> flag, and the solver runs on a table where it is so; a caller who passes
  nothing gets \<open>False\<close>; and loading the module sets the entry to \<open>False\<close> before any
  call.
\<close>

theorem show_progress_is_verbose:
  "(\<exists>options' call.
      options' ''show_progress'' = Some (OBool verbose) \<and>
      (\<forall>qp. cvxopt_solve_qp qp options P q G h A b lb ub solver initvals verbose
                maxiters abstol reltol feastol refinement =
            (options', case qp options' call of
                         Inl e \<Rightarrow> Inl e | Inr sol \<Rightarrow> solution_or_none q sol))) \<and>
   (\<exists>options' call.
      options' ''show_progress'' = Some (OBool False) \<and>
      (\<forall>qp. cvxopt_solve_qp_defaults qp options P q =
            (options', case qp options' call of
                         Inl e \<Rightarrow> Inl e | Inr sol \<Rightarrow> solution_or_none q sol))) \<and>
   module_load options ''show_progress'' = Some (OBool False)"
proof (intro conjI)
  let ?GH = "if lb \<noteq> None \<or> ub \<noteq> None
             then linear_from_box_inequalities G h lb ub else (G, h)"
  let ?o = "update_options options verbose maxiters abstol reltol feastol refinement"
  let ?c = "qp_arguments P q (fst ?GH) (snd ?GH) A b solver initvals"
  have "?o ''show_progress'' = Some (OBool verbose)"
    by (rule update_options_show_progress)
  moreover have "\<forall>qp. cvxopt_solve_qp qp options P q G h A b lb ub solver initvals verbose
                   maxiters abstol reltol feastol refinement =
                 (?o, case qp ?o ?c of Inl e \<Rightarrow> Inl e | Inr sol \<Rightarrow> solution_or_none q sol)"
    by (simp add: cvxopt_solve_qp_invokes Let_def)
  ultimately show "\<exists>options' call.
      options' ''show_progress'' = Some (OBool verbose) \<and>
      (\<forall>qp. cvxopt_solve_qp qp options P q G h A b lb ub solver initvals verbose
                maxiters abstol reltol feastol refinement =
            (options', case qp options' call of
                         Inl e \<Rightarrow> Inl e | Inr sol \<Rightarrow> solution_or_none q sol))"
    by blast
next
  let ?o = "update_options options False None None None None None"
  let ?c = "qp_arguments P q None None None None None None"
  have "?o ''show_progress'' = Some (OBool False)"
    by (rule update_options_show_progress)
  moreover have "\<forall>qp. cvxopt_solve_qp_defaults qp options P q =
                 (?o, case qp ?o ?c of Inl e \<Rightarrow> Inl e | Inr sol \<Rightarrow> solution_or_none q sol)"
    by (simp add: cvxopt_solve_qp_defaults_def cvxopt_solve_qp_invokes Let_def)
  ultimately show "\<exists>options' call.
      options' ''show_progress'' = Some (OBool False) \<and>
      (\<forall>qp. cvxopt_solve_qp_defaults qp options P q =
            (options', case qp options' call of
                         Inl e \<Rightarrow> Inl e | Inr sol \<Rightarrow> solution_or_none q sol))"
    by blast
next
  show "module_load options ''show_progress'' = Some (OBool False)"
    by (simp add: module_load_def)
qed


theorem show_progress_is_verbose_witness:
  "fst (cvxopt_solve_qp (example_backend ''optimal'') Map.empty example_P example_q
          None None None None None None None None True None None None None None)
     ''show_progress'' = Some (OBool True) \<and>
   fst (cvxopt_solve_qp_defaults (raising_backend ''failure'') Map.empty example_P example_q)
     ''show_progress'' = Some (OBool False) \<and>
   module_load Map.empty ''show_progress'' = Some (OBool False)"
proof -
  note inst = show_progress_is_verbose
               [of True Map.empty example_P example_q None None None None None None None None
                   None None None None None]
  from inst obtain o1 c1 where
    "o1 ''show_progress'' = Some (OBool True)"
    "\<And>qp. cvxopt_solve_qp qp Map.empty example_P example_q
          None None None None None None None None True None None None None None =
        (o1, case qp o1 c1 of Inl e \<Rightarrow> Inl e | Inr sol \<Rightarrow> solution_or_none example_q sol)"
    by blast
  then have 1: "fst (cvxopt_solve_qp (example_backend ''optimal'') Map.empty example_P example_q
          None None None None None None None None True None None None None None)
     ''show_progress'' = Some (OBool True)"
    by simp
  from inst obtain o2 c2 where
    "o2 ''show_progress'' = Some (OBool False)"
    "\<And>qp. cvxopt_solve_qp_defaults qp Map.empty example_P example_q =
        (o2, case qp o2 c2 of Inl e \<Rightarrow> Inl e | Inr sol \<Rightarrow> solution_or_none example_q sol)"
    by blast
  then have 2: "fst (cvxopt_solve_qp_defaults (raising_backend ''failure'') Map.empty
                  example_P example_q) ''show_progress'' = Some (OBool False)"
    by simp
  from inst have 3: "module_load Map.empty ''show_progress'' = Some (OBool False)"
    by blast
  from 1 2 3 show ?thesis by blast
qed

lemma solution_or_none_length:
  "solution_or_none q sol = Inr (Some v) \<Longrightarrow> length v = length q"
  by (auto simp: solution_or_none_def reshape_def split: if_splits)

text \<open>
  Claim C2, as stated: the function never raises on a non-optimal termination such as
  infeasibility. It has no exception handler, so it raises whenever the solver does, and
  the solver library raises on some infeasible problems, as here on \<open>x = 1\<close>, \<open>x \<le> 0\<close>.
\<close>

theorem raises_on_infeasible_counterexample:
  "snd (cvxopt_solve_qp domain_error_backend (module_load Map.empty)
          (Ndarray (Array2 [[Fin 1]])) [Fin 0]
          (Some (Ndarray (Array2 [[Fin 1]]))) (Some [Fin 0])
          (Some (Ndarray (Array2 [[Fin 1]]))) (Some [Fin 1])
          None None None None False None None None None None)
     = Inl (ValueError ''domain error'')"
  by (simp add: cvxopt_solve_qp_invokes Let_def domain_error_backend_def)

text \<open>
  Claim C2, amended. When the solver raises, the function raises the same exception.
  When the solver returns a result, the function returns \<open>None\<close> exactly when the status
  does not contain \<open>optimal\<close>; when it does, the function returns the solver's point as
  a vector if the point has \<open>len(q)\<close> entries and raises \<open>ValueError\<close> if not. Every
  vector the function returns has length \<open>len(q)\<close>.
\<close>

theorem outcome_of_backend_result:
  "\<exists>options' call. \<forall>qp.
     (\<forall>e. qp options' call = Inl e \<longrightarrow>
        snd (cvxopt_solve_qp qp options P q G h A b lb ub solver initvals verbose
               maxiters abstol reltol feastol refinement) = Inl e) \<and>
     (\<forall>sol. qp options' call = Inr sol \<longrightarrow>
        ((snd (cvxopt_solve_qp qp options P q G h A b lb ub solver initvals verbose
                 maxiters abstol reltol feastol refinement) = Inr None)
           = (\<not> sublist ''optimal'' (sol_status sol))) \<and>
        (sublist ''optimal'' (sol_status sol) \<and> length (concat (sol_x sol)) = length q \<longrightarrow>
           snd (cvxopt_solve_qp qp options P q G h A b lb ub solver initvals verbose
                  maxiters abstol reltol feastol refinement)
             = Inr (Some (concat (sol_x sol)))) \<and>
        (sublist ''optimal'' (sol_status sol) \<and> length (concat (sol_x sol)) \<noteq> length q \<longrightarrow>
           snd (cvxopt_solve_qp qp options P q G h A b lb ub solver initvals verbose
                  maxiters abstol reltol feastol refinement)
             = Inl (ValueError ''cannot reshape array''))) \<and>
     (\<forall>v. snd (cvxopt_solve_qp qp options P q G h A b lb ub solver initvals verbose
                  maxiters abstol reltol feastol refinement) = Inr (Some v) \<longrightarrow>
          length v = length q)"
proof -
  let ?GH = "if lb \<noteq> None \<or> ub \<noteq> None
             then linear_from_box_inequalities G h lb ub else (G, h)"
  let ?o = "update_options options verbose maxiters abstol reltol feastol refinement"
  let ?c = "qp_arguments P q (fst ?GH) (snd ?GH) A b solver initvals"
  let ?r = "\<lambda>qp. snd (cvxopt_solve_qp qp options P q G h A b lb ub solver initvals verbose
               maxiters abstol reltol feastol refinement)"
  have r: "?r qp = (case qp ?o ?c of Inl e \<Rightarrow> Inl e | Inr sol \<Rightarrow> solution_or_none q sol)"
    for qp
    by (simp add: cvxopt_solve_qp_invokes Let_def)
  have a: "?r qp = Inl e" if "qp ?o ?c = Inl e" for qp e
    using that by (simp add: r)
  have b: "(?r qp = Inr None) = (\<not> sublist ''optimal'' (sol_status sol))"
    if "qp ?o ?c = Inr sol" for qp sol
    using that
    by (cases "sublist ''optimal'' (sol_status sol)")
       (simp_all add: r solution_or_none_optimal solution_or_none_not_optimal)
  have c: "?r qp = Inr (Some (concat (sol_x sol)))"
    if "qp ?o ?c = Inr sol" and "sublist ''optimal'' (sol_status sol)"
      and "length (concat (sol_x sol)) = length q" for qp sol
    using that by (simp add: r solution_or_none_optimal)
  have d: "?r qp = Inl (ValueError ''cannot reshape array'')"
    if "qp ?o ?c = Inr sol" and "sublist ''optimal'' (sol_status sol)"
      and "length (concat (sol_x sol)) \<noteq> length q" for qp sol
    using that by (simp add: r solution_or_none_optimal)
  have e: "length v = length q" if "?r qp = Inr (Some v)" for qp v
  proof (cases "qp ?o ?c")
    case (Inl x)
    with that show ?thesis by (simp add: r)
  next
    case (Inr sol)
    with that have "solution_or_none q sol = Inr (Some v)" by (simp add: r)
    then show ?thesis by (rule solution_or_none_length)
  qed
  show ?thesis
    using a b c d e by blast
qed

theorem outcome_of_backend_result_witness:
  "snd (cvxopt_solve_qp (example_backend ''optimal'') Map.empty example_P example_q
          None None None None None None None None False None None None None None)
     = Inr (Some [Fin 1]) \<and>
   snd (cvxopt_solve_qp (example_backend ''unknown'') Map.empty example_P example_q
          None None None None None None None None False None None None None None)
     = Inr None \<and>
   snd (cvxopt_solve_qp domain_error_backend Map.empty example_P example_q
          None None None None None None None None False None None None None None)
     = Inl (ValueError ''domain error'') \<and>
   snd (cvxopt_solve_qp (example_backend ''optimal'') Map.empty example_P2 example_q2
          None None None None None None None None False None None None None None)
     = Inl (ValueError ''cannot reshape array'')"
proof -
  let ?r1 = "\<lambda>qp. snd (cvxopt_solve_qp qp Map.empty example_P example_q
          None None None None None None None None False None None None None None)"
  let ?r2 = "\<lambda>qp. snd (cvxopt_solve_qp qp Map.empty example_P2 example_q2
          None None None None None None None None False None None None None None)"
  have o: "sublist ''optimal'' ''optimal''" and u: "\<not> sublist ''optimal'' ''unknown''"
    by code_simp+
  obtain o1 c1 where
    a1: "\<And>qp e. qp o1 c1 = Inl e \<Longrightarrow> ?r1 qp = Inl e" and
    b1: "\<And>qp sol. qp o1 c1 = Inr sol \<Longrightarrow>
           (?r1 qp = Inr None) = (\<not> sublist ''optimal'' (sol_status sol))" and
    c1: "\<And>qp sol. qp o1 c1 = Inr sol \<Longrightarrow> sublist ''optimal'' (sol_status sol) \<Longrightarrow>
           length (concat (sol_x sol)) = length example_q \<Longrightarrow>
           ?r1 qp = Inr (Some (concat (sol_x sol)))"
    using outcome_of_backend_result
            [of Map.empty example_P example_q None None None None None None None None False
                None None None None None]
    by blast
  obtain o2 c2 where
    d2: "\<And>qp sol. qp o2 c2 = Inr sol \<Longrightarrow> sublist ''optimal'' (sol_status sol) \<Longrightarrow>
           length (concat (sol_x sol)) \<noteq> length example_q2 \<Longrightarrow>
           ?r2 qp = Inl (ValueError ''cannot reshape array'')"
    using outcome_of_backend_result
            [of Map.empty example_P2 example_q2 None None None None None None None None False
                None None None None None]
    by blast
  have 1: "?r1 (example_backend ''optimal'') = Inr (Some [Fin 1])"
    using c1 [of "example_backend ''optimal''" "\<lparr> sol_status = ''optimal'', sol_x = [[Fin 1]] \<rparr>"] o
    by (simp add: example_backend_def example_q_def)
  have 2: "?r1 (example_backend ''unknown'') = Inr None"
    using b1 [of "example_backend ''unknown''" "\<lparr> sol_status = ''unknown'', sol_x = [[Fin 1]] \<rparr>"] u
    by (simp add: example_backend_def)
  have 3: "?r1 domain_error_backend = Inl (ValueError ''domain error'')"
    using a1 [of domain_error_backend "ValueError ''domain error''"]
    by (simp add: domain_error_backend_def)
  have 4: "?r2 (example_backend ''optimal'') = Inl (ValueError ''cannot reshape array'')"
    using d2 [of "example_backend ''optimal''" "\<lparr> sol_status = ''optimal'', sol_x = [[Fin 1]] \<rparr>"] o
    by (simp add: example_backend_def example_q2_def)
  from 1 2 3 4 show ?thesis by blast
qed

text \<open>
  Claim C4, as stated: after the call the solver's option table is what it was before
  the call. It is not: a call with \<open>verbose=True, maxiters=50\<close> on the table the
  module leaves at load returns with both entries written.
\<close>

theorem options_not_restored_counterexample:
  "fst (cvxopt_solve_qp (example_backend ''optimal'') (module_load Map.empty) example_P example_q
          None None None None None None None None True (Some 50) None None None None)
     \<noteq> module_load Map.empty \<and>
   module_load Map.empty ''show_progress'' = Some (OBool False) \<and>
   module_load Map.empty ''maxiters'' = None \<and>
   fst (cvxopt_solve_qp (example_backend ''optimal'') (module_load Map.empty) example_P example_q
          None None None None None None None None True (Some 50) None None None None)
     ''show_progress'' = Some (OBool True) \<and>
   fst (cvxopt_solve_qp (example_backend ''optimal'') (module_load Map.empty) example_P example_q
          None None None None None None None None True (Some 50) None None None None)
     ''maxiters'' = Some (OInt 50)"
proof -
  let ?after = "fst (cvxopt_solve_qp (example_backend ''optimal'') (module_load Map.empty)
          example_P example_q
          None None None None None None None None True (Some 50) None None None None)"
  have a: "?after ''show_progress'' = Some (OBool True)"
    by (simp add: cvxopt_solve_qp_invokes Let_def update_options_def)
  have b: "?after ''maxiters'' = Some (OInt 50)"
    by (simp add: cvxopt_solve_qp_invokes Let_def update_options_def)
  have c: "module_load Map.empty ''show_progress'' = Some (OBool False)"
    by (simp add: module_load_def)
  have d: "module_load Map.empty ''maxiters'' = None"
    by (simp add: module_load_def)
  from a c have "?after \<noteq> module_load Map.empty"
    by (metis option.inject optval.inject(1))
  with a b c d show ?thesis by blast
qed

text \<open>
  Claim C4, amended: the function writes into the shared table and restores nothing.
  After every call, whether the solver returned or raised, \<open>show_progress\<close> holds the
  caller's \<open>verbose\<close>, each tuning option the caller supplied with a non-zero value holds
  that value, and every other entry is as before the call.
\<close>

theorem options_after_call:
  "fst (cvxopt_solve_qp qp options P q G h A b lb ub solver initvals verbose
          maxiters abstol reltol feastol refinement) k =
     (if k = ''show_progress'' then Some (OBool verbose)
      else if k = ''maxiters'' \<and> maxiters \<noteq> None \<and> maxiters \<noteq> Some 0
        then map_option OInt maxiters
      else if k = ''abstol'' \<and> abstol \<noteq> None \<and> abstol \<noteq> Some 0
        then map_option OFloat abstol
      else if k = ''reltol'' \<and> reltol \<noteq> None \<and> reltol \<noteq> Some 0
        then map_option OFloat reltol
      else if k = ''feastol'' \<and> feastol \<noteq> None \<and> feastol \<noteq> Some 0
        then map_option OFloat feastol
      else if k = ''refinement'' \<and> refinement \<noteq> None \<and> refinement \<noteq> Some 0
        then map_option OInt refinement
      else options k)"
  by (simp add: cvxopt_solve_qp_invokes Let_def update_options_def split: option.split)

theorem options_after_call_witness:
  "fst (cvxopt_solve_qp (raising_backend ''failure'') (module_load Map.empty) example_P example_q
          None None None None None None None None True (Some 50) (Some 0) (Some (1/2)) None None)
     ''reltol'' = Some (OFloat (1/2)) \<and>
   fst (cvxopt_solve_qp (raising_backend ''failure'') (module_load Map.empty) example_P example_q
          None None None None None None None None True (Some 50) (Some 0) (Some (1/2)) None None)
     ''maxiters'' = Some (OInt 50) \<and>
   fst (cvxopt_solve_qp (raising_backend ''failure'') (module_load Map.empty) example_P example_q
          None None None None None None None None True (Some 50) (Some 0) (Some (1/2)) None None)
     ''abstol'' = None \<and>
   fst (cvxopt_solve_qp (raising_backend ''failure'') (module_load Map.empty) example_P example_q
          None None None None None None None None True (Some 50) (Some 0) (Some (1/2)) None None)
     ''show_progress'' = Some (OBool True)"
  using options_after_call [where qp = "raising_backend ''failure''"
          and options = "module_load Map.empty" and P = example_P and q = example_q
          and G = None and h = None and A = None and b = None and lb = None and ub = None
          and solver = None and initvals = None and verbose = True and maxiters = "Some 50"
          and abstol = "Some 0" and reltol = "Some (1/2)" and feastol = None
          and refinement = None and k = "''reltol''"]
        options_after_call [where qp = "raising_backend ''failure''"
          and options = "module_load Map.empty" and P = example_P and q = example_q
          and G = None and h = None and A = None and b = None and lb = None and ub = None
          and solver = None and initvals = None and verbose = True and maxiters = "Some 50"
          and abstol = "Some 0" and reltol = "Some (1/2)" and feastol = None
          and refinement = None and k = "''maxiters''"]
        options_after_call [where qp = "raising_backend ''failure''"
          and options = "module_load Map.empty" and P = example_P and q = example_q
          and G = None and h = None and A = None and b = None and lb = None and ub = None
          and solver = None and initvals = None and verbose = True and maxiters = "Some 50"
          and abstol = "Some 0" and reltol = "Some (1/2)" and feastol = None
          and refinement = None and k = "''abstol''"]
        options_after_call [where qp = "raising_backend ''failure''"
          and options = "module_load Map.empty" and P = example_P and q = example_q
          and G = None and h = None and A = None and b = None and lb = None and ub = None
          and solver = None and initvals = None and verbose = True and maxiters = "Some 50"
          and abstol = "Some 0" and reltol = "Some (1/2)" and feastol = None
          and refinement = None and k = "''show_progress''"]
  by (simp add: module_load_def)

text \<open>
  Claim C6 fails at an explicit zero: \<open>if refinement:\<close> and \<open>if abstol:\<close> test the
  truth value, so \<open>refinement=0\<close> leaves a \<open>refinement\<close> entry written by an earlier
  call in force, and \<open>abstol=0.0\<close> writes no entry at all.
\<close>

theorem explicit_zero_not_forwarded:
  "fst (cvxopt_solve_qp (example_backend ''optimal'')
          ((module_load Map.empty)(''refinement'' \<mapsto> OInt 2)) example_P example_q
          None None None None None None None None False None (Some 0) None None (Some 0))
     ''refinement'' = Some (OInt 2) \<and>
   fst (cvxopt_solve_qp (example_backend ''optimal'')
          ((module_load Map.empty)(''refinement'' \<mapsto> OInt 2)) example_P example_q
          None None None None None None None None False None (Some 0) None None (Some 0))
     ''abstol'' = None"
  by (simp add: cvxopt_solve_qp_invokes Let_def update_options_def module_load_def)

theorem explicit_zero_not_forwarded_witness:
  "fst (cvxopt_solve_qp (example_backend ''optimal'')
          ((module_load Map.empty)(''refinement'' \<mapsto> OInt 2)) example_P example_q
          None None None None None None None None False None (Some 0) None None (Some 0))
     ''refinement'' \<noteq> Some (OInt 0) \<and>
   fst (cvxopt_solve_qp (example_backend ''optimal'')
          ((module_load Map.empty)(''refinement'' \<mapsto> OInt 2)) example_P example_q
          None None None None None None None None False None (Some 0) None None (Some 0))
     ''abstol'' \<noteq> Some (OFloat 0)"
  using explicit_zero_not_forwarded by simp

text \<open>
  Claim C5, as stated: an exception raised by the solver library becomes a
  \<open>BackendError\<close> outcome instead of reaching the caller, and an unrecognized status is
  told apart from infeasibility. Neither holds: the exception reaches the caller as it
  was raised, and an unknown status and \<open>primal infeasible\<close> both return \<open>None\<close>.
\<close>

theorem backend_exception_propagates_counterexample:
  "snd (cvxopt_solve_qp (raising_backend ''Rank(A) < p or Rank([P; A; G]) < n'') Map.empty
          example_P example_q
          None None None None None None None None False None None None None None)
     = Inl (BackendException ''Rank(A) < p or Rank([P; A; G]) < n'') \<and>
   snd (cvxopt_solve_qp (example_backend ''primal infeasible'') Map.empty example_P example_q
          None None None None None None None None False None None None None None)
     = Inr None \<and>
   snd (cvxopt_solve_qp (example_backend ''no such status'') Map.empty example_P example_q
          None None None None None None None None False None None None None None)
     = Inr None"
proof -
  have "\<not> sublist ''optimal'' ''primal infeasible''" and "\<not> sublist ''optimal'' ''no such status''"
    by code_simp+
  then show ?thesis
    by (simp add: cvxopt_solve_qp_invokes Let_def raising_backend_def example_backend_def
                  solution_or_none_not_optimal)
qed

text \<open>
  Claim C5, amended: the function has no exception handler and no error outcome. An
  exception raised by the solver reaches the caller unchanged, with its message; every
  status that does not contain \<open>optimal\<close>, known or not, returns \<open>None\<close>.
\<close>

theorem backend_failure_outcomes:
  "\<exists>options' call. \<forall>qp.
     (\<forall>e. qp options' call = Inl e \<longrightarrow>
        snd (cvxopt_solve_qp qp options P q G h A b lb ub solver initvals verbose
               maxiters abstol reltol feastol refinement) = Inl e) \<and>
     (\<forall>sol. qp options' call = Inr sol \<and> \<not> sublist ''optimal'' (sol_status sol) \<longrightarrow>
        snd (cvxopt_solve_qp qp options P q G h A b lb ub solver initvals verbose
               maxiters abstol reltol feastol refinement) = Inr None)"
proof -
  let ?GH = "if lb \<noteq> None \<or> ub \<noteq> None
             then linear_from_box_inequalities G h lb ub else (G, h)"
  let ?o = "update_options options verbose maxiters abstol reltol feastol refinement"
  let ?c = "qp_arguments P q (fst ?GH) (snd ?GH) A b solver initvals"
  have "snd (cvxopt_solve_qp qp options P q G h A b lb ub solver initvals verbose
               maxiters abstol reltol feastol refinement) = Inl e"
    if "qp ?o ?c = Inl e" for qp e
    using that by (simp add: cvxopt_solve_qp_invokes Let_def)
  moreover have "snd (cvxopt_solve_qp qp options P q G h A b lb ub solver initvals verbose
               maxiters abstol reltol feastol refinement) = Inr None"
    if "qp ?o ?c = Inr sol" and "\<not> sublist ''optimal'' (sol_status sol)" for qp sol
    using that by (simp add: cvxopt_solve_qp_invokes Let_def solution_or_none_not_optimal)
  ultimately show ?thesis by blast
qed

theorem backend_failure_outcomes_witness:
  "snd (cvxopt_solve_qp (raising_backend ''singular KKT matrix'') Map.empty example_P example_q
          None None None None None None None None False None None None None None)
     = Inl (BackendException ''singular KKT matrix'') \<and>
   snd (cvxopt_solve_qp (example_backend ''dual infeasible'') Map.empty example_P example_q
          None None None None None None None None False None None None None None)
     = Inr None"
proof -
  obtain options' call where
    *: "\<And>qp e. qp options' call = Inl e \<Longrightarrow>
        snd (cvxopt_solve_qp qp Map.empty example_P example_q
          None None None None None None None None False None None None None None) = Inl e"
    and **: "\<And>qp sol. qp options' call = Inr sol \<Longrightarrow> \<not> sublist ''optimal'' (sol_status sol) \<Longrightarrow>
        snd (cvxopt_solve_qp qp Map.empty example_P example_q
          None None None None None None None None False None None None None None) = Inr None"
    using backend_failure_outcomes
            [of Map.empty example_P example_q None None None None None None None None False
                None None None None None]
    by blast
  have n: "\<not> sublist ''optimal'' ''dual infeasible''"
    by code_simp
  show ?thesis
    using *[of "raising_backend ''singular KKT matrix''" "BackendException ''singular KKT matrix''"]
          **[of "example_backend ''dual infeasible''"
                "\<lparr> sol_status = ''dual infeasible'', sol_x = [[Fin 1]] \<rparr>"] n
    by (simp add: raising_backend_def example_backend_def)
qed

lemma qp_arguments_incomplete_G:
  "G = None \<or> h = None \<Longrightarrow>
   call_G (qp_arguments P q G h A b solver initvals) = None \<and>
   call_h (qp_arguments P q G h A b solver initvals) = None"
  by (auto simp: qp_arguments_def split: option.split)

lemma qp_arguments_incomplete_A:
  "A = None \<or> b = None \<Longrightarrow>
   call_A (qp_arguments P q G h A b solver initvals) = None \<and>
   call_b (qp_arguments P q G h A b solver initvals) = None"
  by (auto simp: qp_arguments_def split: option.split)

text \<open>
  Claim C10. Called without \<open>lb\<close> and \<open>ub\<close>, the function passes \<open>G\<close> and \<open>h\<close>
  to the solver as absent whenever one of the two is absent, and likewise \<open>A\<close> and
  \<open>b\<close>; the incomplete pair raises nothing, the outcome being the solver's alone.
\<close>

theorem incomplete_pair_dropped:
  assumes "lb = None" and "ub = None"
  shows "\<exists>options' call.
     (G = None \<or> h = None \<longrightarrow> call_G call = None \<and> call_h call = None) \<and>
     (A = None \<or> b = None \<longrightarrow> call_A call = None \<and> call_b call = None) \<and>
     (\<forall>qp. cvxopt_solve_qp qp options P q G h A b lb ub solver initvals verbose
               maxiters abstol reltol feastol refinement =
           (options', case qp options' call of
                        Inl e \<Rightarrow> Inl e | Inr sol \<Rightarrow> solution_or_none q sol))"
proof (intro exI conjI allI impI)
  let ?o = "update_options options verbose maxiters abstol reltol feastol refinement"
  let ?c = "qp_arguments P q G h A b solver initvals"
  show "cvxopt_solve_qp qp options P q G h A b lb ub solver initvals verbose
               maxiters abstol reltol feastol refinement =
           (?o, case qp ?o ?c of Inl e \<Rightarrow> Inl e | Inr sol \<Rightarrow> solution_or_none q sol)" for qp
    using assms by (simp add: cvxopt_solve_qp_invokes Let_def)
  show "call_G ?c = None" if "G = None \<or> h = None"
    using qp_arguments_incomplete_G [OF that] by (rule conjunct1)
  show "call_h ?c = None" if "G = None \<or> h = None"
    using qp_arguments_incomplete_G [OF that] by (rule conjunct2)
  show "call_A ?c = None" if "A = None \<or> b = None"
    using qp_arguments_incomplete_A [OF that] by (rule conjunct1)
  show "call_b ?c = None" if "A = None \<or> b = None"
    using qp_arguments_incomplete_A [OF that] by (rule conjunct2)
qed


theorem incomplete_pair_dropped_witness:
  "snd (cvxopt_solve_qp echo_backend Map.empty example_P example_q
          (Some (Ndarray (Array2 [[Fin 1]]))) None None (Some [Fin 2])
          None None None None False None None None None None)
     = Inr (Some [Fin 0]) \<and>
   (\<exists>e. check_problem_constraints (Some (Ndarray (Array2 [[Fin 1]]))) (None :: vector option)
          (None :: array_like option) (Some [Fin 2 :: scalar]) = Inl e)"
proof -
  obtain options' call where
    g: "call_G call = None \<and> call_h call = None" and
    a: "call_A call = None \<and> call_b call = None" and
    r: "\<And>qp. cvxopt_solve_qp qp Map.empty example_P example_q
          (Some (Ndarray (Array2 [[Fin 1]]))) None None (Some [Fin 2])
          None None None None False None None None None None =
        (options', case qp options' call of
                        Inl e \<Rightarrow> Inl e | Inr sol \<Rightarrow> solution_or_none example_q sol)"
    using incomplete_pair_dropped [OF refl refl, of "Some (Ndarray (Array2 [[Fin 1]]))" None None
            "Some [Fin 2]" Map.empty example_P example_q None None False None None None None None]
    by blast
  have e: "echo_backend options' call = Inr \<lparr> sol_status = ''optimal'', sol_x = [[Fin 0]] \<rparr>"
    unfolding echo_backend_def using g a by simp
  have o: "sublist ''optimal'' ''optimal''"
    by code_simp
  have s: "solution_or_none example_q \<lparr> sol_status = ''optimal'', sol_x = [[Fin 0]] \<rparr>
          = Inr (Some [Fin 0])"
    using o by (simp add: solution_or_none_optimal example_q_def)
  have "snd (cvxopt_solve_qp echo_backend Map.empty example_P example_q
          (Some (Ndarray (Array2 [[Fin 1]]))) None None (Some [Fin 2])
          None None None None False None None None None None)
     = Inr (Some [Fin 0])"
    unfolding r [of echo_backend] e using s by simp
  moreover have "\<exists>e. check_problem_constraints (Some (Ndarray (Array2 [[Fin 1]])))
          (None :: vector option) (None :: array_like option) (Some [Fin 2 :: scalar]) = Inl e"
    by (simp add: check_problem_constraints_def)
  ultimately show ?thesis by (rule conjI)
qed

section \<open>Box bounds\<close>

text \<open>The two loops of the canonicalizer in closed form, and stacking read row by row.\<close>

lemma filter_upt_Suc:
  "filter P [0..<Suc n] = (if P 0 then [0] else []) @ map Suc (filter (P \<circ> Suc) [0..<n])"
proof -
  have "[0..<Suc n] = 0 # map Suc [0..<n]"
    by (simp add: upt_conv_Cons map_Suc_upt del: upt_Suc)
  then show ?thesis
    by (simp add: filter_map del: upt_Suc)
qed

lemma lower_rows_closed:
  "lower_rows n i vs =
     map (\<lambda>k. (map neg (basis_row n (i + k)), neg (vs ! k))) (finite_indices vs)"
proof (induction vs arbitrary: i)
  case Nil
  then show ?case by (simp add: finite_indices_def)
next
  case (Cons v vs)
  have "finite_indices (v # vs) =
          (if isfinite v then [0] else []) @ map Suc (finite_indices vs)"
    unfolding finite_indices_def by (simp add: filter_upt_Suc comp_def del: upt_Suc)
  then show ?case
    using Cons.IH [of "Suc i"] by (simp add: comp_def)
qed

lemma upper_rows_closed:
  "upper_rows n i vs =
     map (\<lambda>k. (basis_row n (i + k), vs ! k)) (finite_indices vs)"
proof (induction vs arbitrary: i)
  case Nil
  then show ?case by (simp add: finite_indices_def)
next
  case (Cons v vs)
  have "finite_indices (v # vs) =
          (if isfinite v then [0] else []) @ map Suc (finite_indices vs)"
    unfolding finite_indices_def by (simp add: filter_upt_Suc comp_def del: upt_Suc)
  then show ?case
    using Cons.IH [of "Suc i"] by (simp add: comp_def)
qed

lemma find_append_cases:
  "find P (xs @ ys) = (case find P xs of None \<Rightarrow> find P ys | Some x \<Rightarrow> Some x)"
  by (induction xs) simp_all

lemma find_row_triplets:
  "find (\<lambda>(v, r', c'). r' = r \<and> c' = c) (row_triplets r0 c0 row) =
     (if r = r0 \<and> c0 \<le> c \<and> c - c0 < length row \<and> row ! (c - c0) \<noteq> Fin 0
      then Some (row ! (c - c0), r, c) else None)"
proof (induction row arbitrary: c0)
  case Nil
  then show ?case by simp
next
  case (Cons v vs)
  show ?case
  proof (cases "c = c0")
    case True
    then show ?thesis using Cons.IH [of "Suc c0"] by simp
  next
    case False
    then show ?thesis using Cons.IH [of "Suc c0"]
      by (auto simp: Suc_diff_le nth_Cons')
  qed
qed

lemma find_rows_triplets:
  "find (\<lambda>(v, r', c'). r' = r \<and> c' = c) (rows_triplets m rows) =
     (if m \<le> r \<and> r - m < length rows \<and> c < length (rows ! (r - m)) \<and>
         rows ! (r - m) ! c \<noteq> Fin 0
      then Some (rows ! (r - m) ! c, r, c) else None)"
proof (induction rows arbitrary: m)
  case Nil
  then show ?case by simp
next
  case (Cons row rows)
  show ?case
  proof (cases "r = m")
    case True
    then show ?thesis
      using Cons.IH [of "Suc m"] by (simp add: find_append_cases find_row_triplets)
  next
    case False
    then show ?thesis
      using Cons.IH [of "Suc m"]
      by (auto simp: find_append_cases find_row_triplets Suc_diff_le nth_Cons')
  qed
qed

lemma zip_triplets_id:
  "zip (map fst xs) (zip (map (fst \<circ> snd) xs) (map (snd \<circ> snd) xs)) = xs"
  by (induction xs) auto

lemma triplets_vstack:
  assumes "csc_wf M"
  shows "triplets (csc_vstack M rows) = triplets M @ rows_triplets (fst (csc_shape M)) rows"
  using assms
  by (simp add: triplets_def csc_vstack_def csc_wf_def Let_def zip_triplets_id)

lemma find_triplets_outside:
  assumes "csc_wf M" and "\<not> r < fst (csc_shape M)"
  shows "find (\<lambda>(v, r', c'). r' = r \<and> c' = c) (triplets M) = None"
proof -
  have "r' \<in> set (coo_row M)" if "(v, r', c') \<in> set (triplets M)" for v r' c'
    using that unfolding triplets_def by (meson set_zip_leftD set_zip_rightD)
  then have "r' < fst (csc_shape M)" if "(v, r', c') \<in> set (triplets M)" for v r' c'
    using that assms(1) unfolding csc_wf_def by blast
  then show ?thesis
    using assms(2) by (auto simp: find_None_iff)
qed

lemma coo_entry_vstack:
  assumes "csc_wf M"
  shows "coo_entry (csc_vstack M rows) r c =
     (if r < fst (csc_shape M) then coo_entry M r c
      else if r - fst (csc_shape M) < length rows \<and> c < length (rows ! (r - fst (csc_shape M)))
      then rows ! (r - fst (csc_shape M)) ! c else Fin 0)"
proof (cases "r < fst (csc_shape M)")
  case True
  then show ?thesis
    by (simp add: coo_entry_def triplets_vstack [OF assms] find_append_cases find_rows_triplets
             split: option.split)
next
  case False
  then show ?thesis
    using find_triplets_outside [OF assms False, of c]
    by (simp add: coo_entry_def triplets_vstack [OF assms] find_append_cases find_rows_triplets)
qed

lemma matrix_rows_vstack:
  assumes "csc_wf M" and "\<forall>row \<in> set rows. length row = snd (csc_shape M)"
  shows "matrix_rows (Csc (csc_vstack M rows)) = matrix_rows (Csc M) @ rows"
proof (rule nth_equalityI)
  show "length (matrix_rows (Csc (csc_vstack M rows))) = length (matrix_rows (Csc M) @ rows)"
    by (simp add: csc_vstack_def Let_def)
next
  fix i
  assume "i < length (matrix_rows (Csc (csc_vstack M rows)))"
  then have i: "i < fst (csc_shape M) + length rows"
    by (simp add: csc_vstack_def Let_def)
  have shape: "csc_shape (csc_vstack M rows) = (fst (csc_shape M) + length rows, snd (csc_shape M))"
    by (simp add: csc_vstack_def Let_def)
  show "matrix_rows (Csc (csc_vstack M rows)) ! i = (matrix_rows (Csc M) @ rows) ! i"
  proof (cases "i < fst (csc_shape M)")
    case True
    then show ?thesis
      using i by (simp add: shape nth_append coo_entry_vstack [OF assms(1)])
  next
    case False
    let ?j = "i - fst (csc_shape M)"
    from False i have j: "?j < length rows" by simp
    then have len: "length (rows ! ?j) = snd (csc_shape M)"
      using assms(2) by simp
    have "map (coo_entry (csc_vstack M rows) i) [0..<snd (csc_shape M)] = rows ! ?j"
      using False j len
      by (intro nth_equalityI) (simp_all add: coo_entry_vstack [OF assms(1)])
    then show ?thesis
      using False i by (simp add: shape nth_append)
  qed
qed

lemma length_basis_row: "length (basis_row n i) = n"
  by (simp add: basis_row_def)

lemma basis_row_nth:
  "k < n \<Longrightarrow> basis_row n i ! k = (if k = i then Fin 1 else Fin 0)"
  by (simp add: basis_row_def)

lemma map_fst_box_rows:
  "map fst (box_rows lb ub) =
     (case lb of None \<Rightarrow> []
      | Some l \<Rightarrow> map (\<lambda>i. map neg (basis_row (length l) i)) (finite_indices l)) @
     (case ub of None \<Rightarrow> []
      | Some u \<Rightarrow> map (\<lambda>i. basis_row (length u) i) (finite_indices u))"
  by (simp add: box_rows_def lower_rows_closed upper_rows_closed comp_def split: option.split)

lemma map_snd_box_rows:
  "map snd (box_rows lb ub) =
     (case lb of None \<Rightarrow> [] | Some l \<Rightarrow> map (\<lambda>i. neg (l ! i)) (finite_indices l)) @
     (case ub of None \<Rightarrow> [] | Some u \<Rightarrow> map (\<lambda>i. u ! i) (finite_indices u))"
  by (simp add: box_rows_def lower_rows_closed upper_rows_closed comp_def split: option.split)

lemma box_rows_lengths:
  assumes "\<forall>l. lb = Some l \<longrightarrow> length l = n" and "\<forall>u. ub = Some u \<longrightarrow> length u = n"
  shows "\<forall>row \<in> set (map fst (box_rows lb ub)). length row = n"
  using assms
  by (auto simp: map_fst_box_rows length_basis_row split: option.splits)

lemma matrix_rows_vstack_any:
  assumes "\<forall>M. G = Some (Csc M) \<longrightarrow> csc_wf M \<and> (\<forall>row \<in> set rows. length row = snd (csc_shape M))"
  shows "matrix_rows (vstack G rows) = rows_of G @ rows"
proof (cases G)
  case None
  then show ?thesis by (simp add: rows_of_def)
next
  case (Some M)
  show ?thesis
  proof (cases M)
    case (Ndarray a)
    then show ?thesis using Some by (cases a) (simp_all add: rows_of_def)
  next
    case (Csc C)
    with Some assms have "csc_wf C" and "\<forall>row \<in> set rows. length row = snd (csc_shape C)"
      by auto
    then have "matrix_rows (Csc (csc_vstack C rows)) = matrix_rows (Csc C) @ rows"
      by (rule matrix_rows_vstack)
    then show ?thesis
      using Some Csc by (simp add: rows_of_def del: matrix_rows.simps)
  qed
qed

lemma rows_of_canonical:
  assumes "\<forall>M. G = Some (Csc M) \<longrightarrow>
             csc_wf M \<and> (\<forall>l. lb = Some l \<longrightarrow> length l = snd (csc_shape M)) \<and>
             (\<forall>u. ub = Some u \<longrightarrow> length u = snd (csc_shape M))"
  shows "rows_of (fst (linear_from_box_inequalities G h lb ub)) =
           rows_of G @ map fst (box_rows lb ub)"
proof (cases "box_rows lb ub = []")
  case True
  then show ?thesis by (simp add: linear_from_box_inequalities_def)
next
  case False
  have "\<forall>M. G = Some (Csc M) \<longrightarrow>
          csc_wf M \<and> (\<forall>row \<in> set (map fst (box_rows lb ub)). length row = snd (csc_shape M))"
    using assms box_rows_lengths by blast
  then have "matrix_rows (vstack G (map fst (box_rows lb ub))) =
               rows_of G @ map fst (box_rows lb ub)"
    by (rule matrix_rows_vstack_any)
  moreover have "fst (linear_from_box_inequalities G h lb ub) =
                   Some (vstack G (map fst (box_rows lb ub)))"
    using False by (simp add: linear_from_box_inequalities_def Let_def)
  ultimately show ?thesis
    by (simp add: rows_of_def)
qed

lemma basis_row_closed:
  "basis_row n i = map (\<lambda>k. if k = i then Fin 1 else Fin 0) [0..<n]"
  by (rule nth_equalityI) (simp_all add: basis_row_def nth_list_update)

lemma neg_basis_row_closed:
  "map neg (basis_row n i) = map (\<lambda>k. if k = i then Fin (- 1) else Fin 0) [0..<n]"
  by (simp add: basis_row_closed)

lemma map_fst_box_rows_spec: "map fst (box_rows lb ub) = spec_box_rows lb ub"
  by (simp add: map_fst_box_rows spec_box_rows_def neg_basis_row_closed basis_row_closed
           split: option.split)

lemma map_snd_box_rows_spec: "map snd (box_rows lb ub) = spec_box_rhs lb ub"
  by (simp add: map_snd_box_rows spec_box_rhs_def)

lemma box_rows_empty_iff: "(box_rows lb ub = []) = (spec_box_rows lb ub = [])"
  using map_fst_box_rows_spec [of lb ub] by (metis map_is_Nil_conv)

lemma cvx_rows_to_cvxopt: "cvx_rows (to_cvxopt M) = matrix_rows M"
  by (cases M) simp_all

lemma cvx_entries_vector: "cvx_entries (to_cvxopt (Ndarray (Array1 v))) = v"
  by (simp add: cvx_entries_def)

lemma qp_arguments_complete_G:
  "call_G (qp_arguments P q (Some g) (Some hh) A b solver initvals) = Some (to_cvxopt g) \<and>
   call_h (qp_arguments P q (Some g) (Some hh) A b solver initvals)
     = Some (to_cvxopt (Ndarray (Array1 hh)))"
  by (simp add: qp_arguments_def)

lemma canonical_pair_received:
  assumes "\<forall>M. G = Some (Csc M) \<longrightarrow>
             csc_wf M \<and> (\<forall>l. lb = Some l \<longrightarrow> length l = snd (csc_shape M)) \<and>
             (\<forall>u. ub = Some u \<longrightarrow> length u = snd (csc_shape M))"
    and "c = qp_arguments P q (fst (linear_from_box_inequalities G h lb ub))
               (snd (linear_from_box_inequalities G h lb ub)) A b solver initvals"
  shows "(spec_box_rows lb ub = [] \<and> (G = None \<or> h = None) \<longrightarrow>
            call_G c = None \<and> call_h c = None) \<and>
         (spec_box_rows lb ub \<noteq> [] \<or> (G \<noteq> None \<and> h \<noteq> None) \<longrightarrow>
            (\<exists>cG ch. call_G c = Some cG \<and> call_h c = Some ch \<and>
                     cvx_rows cG = rows_of G @ spec_box_rows lb ub \<and>
                     cvx_entries ch = entries_of h @ spec_box_rhs lb ub))"
proof (cases "box_rows lb ub = []")
  case True
  then have empty: "spec_box_rows lb ub = []" "spec_box_rhs lb ub = []"
    using map_fst_box_rows_spec [of lb ub] map_snd_box_rows_spec [of lb ub] by simp_all
  from True have same: "linear_from_box_inequalities G h lb ub = (G, h)"
    by (simp add: linear_from_box_inequalities_def)
  show ?thesis
  proof (cases "G = None \<or> h = None")
    case True
    then show ?thesis
      using qp_arguments_incomplete_G [of G h P q A b solver initvals] assms(2) same empty
      by simp
  next
    case False
    then obtain g hh where gh: "G = Some g" "h = Some hh" by auto
    then show ?thesis
      using qp_arguments_complete_G [of P q g hh A b solver initvals] assms(2) same empty
      by (simp add: cvx_rows_to_cvxopt cvx_entries_def rows_of_def entries_of_def)
  qed
next
  case False
  let ?g = "vstack G (map fst (box_rows lb ub))"
  let ?hh = "entries_of h @ map snd (box_rows lb ub)"
  from False have new: "linear_from_box_inequalities G h lb ub = (Some ?g, Some ?hh)"
    by (simp add: linear_from_box_inequalities_def Let_def entries_of_def)
  have rows: "matrix_rows ?g = rows_of G @ spec_box_rows lb ub"
    using rows_of_canonical [OF assms(1), of h] new
    by (simp add: rows_of_def map_fst_box_rows_spec)
  from False have ne: "spec_box_rows lb ub \<noteq> []"
    by (simp add: box_rows_empty_iff)
  have "call_G c = Some (to_cvxopt ?g)" "call_h c = Some (to_cvxopt (Ndarray (Array1 ?hh)))"
    using qp_arguments_complete_G [of P q ?g ?hh A b solver initvals] assms(2) new by simp_all
  moreover have "cvx_rows (to_cvxopt ?g) = rows_of G @ spec_box_rows lb ub"
    by (simp only: cvx_rows_to_cvxopt rows)
  moreover have "cvx_entries (to_cvxopt (Ndarray (Array1 ?hh))) = entries_of h @ spec_box_rhs lb ub"
    by (simp only: cvx_entries_vector map_snd_box_rows_spec)
  ultimately show ?thesis
    using ne by blast
qed

text \<open>
  Claim C3. When \<open>lb\<close> or \<open>ub\<close> is given, the solver is called once, and what it
  receives as \<open>G\<close> has the rows of the caller's \<open>G\<close>, then the row \<open>-e\<^sub>i\<close> for each
  finite \<open>lb\<^sub>i\<close> in index order, then the row \<open>e\<^sub>i\<close> for each finite \<open>ub\<^sub>i\<close> in index
  order; what it receives as \<open>h\<close> has the entries of the caller's \<open>h\<close>, then the
  \<open>-lb\<^sub>i\<close>, then the \<open>ub\<^sub>i\<close>. An infinite entry gives no row. Only when no bound is
  finite and \<open>G\<close> or \<open>h\<close> is absent does the solver receive neither. (A sparse \<open>G\<close> is
  taken well formed, with as many columns as the bounds have entries.)
\<close>

theorem box_bounds_canonicalized:
  assumes "lb \<noteq> None \<or> ub \<noteq> None"
    and "\<forall>M. G = Some (Csc M) \<longrightarrow>
           csc_wf M \<and> (\<forall>l. lb = Some l \<longrightarrow> length l = snd (csc_shape M)) \<and>
           (\<forall>u. ub = Some u \<longrightarrow> length u = snd (csc_shape M))"
  shows "\<exists>options' call.
     (\<forall>qp. cvxopt_solve_qp qp options P q G h A b lb ub solver initvals verbose
               maxiters abstol reltol feastol refinement =
           (options', case qp options' call of
                        Inl e \<Rightarrow> Inl e | Inr sol \<Rightarrow> solution_or_none q sol)) \<and>
     (spec_box_rows lb ub = [] \<and> (G = None \<or> h = None) \<longrightarrow>
        call_G call = None \<and> call_h call = None) \<and>
     (spec_box_rows lb ub \<noteq> [] \<or> (G \<noteq> None \<and> h \<noteq> None) \<longrightarrow>
        (\<exists>cG ch. call_G call = Some cG \<and> call_h call = Some ch \<and>
                 cvx_rows cG = rows_of G @ spec_box_rows lb ub \<and>
                 cvx_entries ch = entries_of h @ spec_box_rhs lb ub))"
proof -
  let ?o = "update_options options verbose maxiters abstol reltol feastol refinement"
  let ?c = "qp_arguments P q (fst (linear_from_box_inequalities G h lb ub))
               (snd (linear_from_box_inequalities G h lb ub)) A b solver initvals"
  have run: "\<forall>qp. cvxopt_solve_qp qp options P q G h A b lb ub solver initvals verbose
               maxiters abstol reltol feastol refinement =
           (?o, case qp ?o ?c of Inl e \<Rightarrow> Inl e | Inr sol \<Rightarrow> solution_or_none q sol)"
    using assms(1) by (simp add: cvxopt_solve_qp_invokes Let_def)
  have recv: "(spec_box_rows lb ub = [] \<and> (G = None \<or> h = None) \<longrightarrow>
            call_G ?c = None \<and> call_h ?c = None) \<and>
         (spec_box_rows lb ub \<noteq> [] \<or> (G \<noteq> None \<and> h \<noteq> None) \<longrightarrow>
            (\<exists>cG ch. call_G ?c = Some cG \<and> call_h ?c = Some ch \<and>
                     cvx_rows cG = rows_of G @ spec_box_rows lb ub \<and>
                     cvx_entries ch = entries_of h @ spec_box_rhs lb ub))"
    by (rule canonical_pair_received [OF assms(2) refl])
  from run recv show ?thesis
    by (intro exI [of _ ?o] exI [of _ ?c] conjI) (rule run, rule conjunct1 [OF recv],
        rule conjunct2 [OF recv])
qed

theorem box_bounds_canonicalized_witness:
  "(\<exists>options' call cG ch.
     (\<forall>qp. cvxopt_solve_qp qp Map.empty example_P2 example_q2 None None None None
               (Some [Fin (- 1), NInf]) (Some [PInf, Fin 2]) None None False
               None None None None None =
           (options', case qp options' call of
                        Inl e \<Rightarrow> Inl e | Inr sol \<Rightarrow> solution_or_none example_q2 sol)) \<and>
     call_G call = Some cG \<and> call_h call = Some ch \<and>
     cvx_rows cG = [[Fin (- 1), Fin 0], [Fin 0, Fin 1]] \<and>
     cvx_entries ch = [Fin 1, Fin 2]) \<and>
   (\<exists>options' call cG ch.
     (\<forall>qp. cvxopt_solve_qp qp Map.empty example_P2 example_q2
               (Some (Csc example_G2)) (Some [Fin 4]) None None
               (Some [Fin 5, NInf]) None None None False
               None None None None None =
           (options', case qp options' call of
                        Inl e \<Rightarrow> Inl e | Inr sol \<Rightarrow> solution_or_none example_q2 sol)) \<and>
     call_G call = Some cG \<and> call_h call = Some ch \<and>
     cvx_rows cG = [[Fin 0, Fin 3], [Fin (- 1), Fin 0]] \<and>
     cvx_entries ch = [Fin 4, Fin (- 5)])"
proof (rule conjI)
  have fi: "finite_indices [Fin (- 1), NInf] = [0]" "finite_indices [PInf, Fin 2] = [Suc 0]"
    by (simp_all add: finite_indices_def)
  have rows: "spec_box_rows (Some [Fin (- 1), NInf]) (Some [PInf, Fin 2])
                = [[Fin (- 1), Fin 0], [Fin 0, Fin 1]]"
    by (simp add: spec_box_rows_def fi)
  have rhs: "spec_box_rhs (Some [Fin (- 1), NInf]) (Some [PInf, Fin 2]) = [Fin 1, Fin 2]"
    by (simp add: spec_box_rhs_def fi)
  have a1: "Some [Fin (- 1), NInf] \<noteq> None \<or> Some [PInf, Fin 2] \<noteq> None"
    by simp
  have a2: "\<forall>M. (None :: array_like option) = Some (Csc M) \<longrightarrow>
           csc_wf M \<and> (\<forall>l. Some [Fin (- 1), NInf] = Some l \<longrightarrow> length l = snd (csc_shape M)) \<and>
           (\<forall>u. Some [PInf, Fin 2] = Some u \<longrightarrow> length u = snd (csc_shape M))"
    by simp
  have ne: "spec_box_rows (Some [Fin (- 1), NInf]) (Some [PInf, Fin 2]) \<noteq> []"
    by (simp add: rows)
  from box_bounds_canonicalized [OF a1 a2, of Map.empty example_P2 example_q2 None None None
         None None False None None None None None] ne
  obtain options' call cG ch where
    "\<forall>qp. cvxopt_solve_qp qp Map.empty example_P2 example_q2 None None None None
               (Some [Fin (- 1), NInf]) (Some [PInf, Fin 2]) None None False
               None None None None None =
           (options', case qp options' call of
                        Inl e \<Rightarrow> Inl e | Inr sol \<Rightarrow> solution_or_none example_q2 sol)"
    "call_G call = Some cG" "call_h call = Some ch"
    "cvx_rows cG = rows_of None @ spec_box_rows (Some [Fin (- 1), NInf]) (Some [PInf, Fin 2])"
    "cvx_entries ch = entries_of None @ spec_box_rhs (Some [Fin (- 1), NInf]) (Some [PInf, Fin 2])"
    by blast
  moreover have "rows_of None = []" "entries_of None = []"
    by (simp_all add: rows_of_def entries_of_def)
  ultimately have
    "(\<forall>qp. cvxopt_solve_qp qp Map.empty example_P2 example_q2 None None None None
               (Some [Fin (- 1), NInf]) (Some [PInf, Fin 2]) None None False
               None None None None None =
           (options', case qp options' call of
                        Inl e \<Rightarrow> Inl e | Inr sol \<Rightarrow> solution_or_none example_q2 sol)) \<and>
     call_G call = Some cG \<and> call_h call = Some ch \<and>
     cvx_rows cG = [[Fin (- 1), Fin 0], [Fin 0, Fin 1]] \<and>
     cvx_entries ch = [Fin 1, Fin 2]"
    by (simp only: rows rhs append_Nil simp_thms)
  then show "\<exists>options' call cG ch.
     (\<forall>qp. cvxopt_solve_qp qp Map.empty example_P2 example_q2 None None None None
               (Some [Fin (- 1), NInf]) (Some [PInf, Fin 2]) None None False
               None None None None None =
           (options', case qp options' call of
                        Inl e \<Rightarrow> Inl e | Inr sol \<Rightarrow> solution_or_none example_q2 sol)) \<and>
     call_G call = Some cG \<and> call_h call = Some ch \<and>
     cvx_rows cG = [[Fin (- 1), Fin 0], [Fin 0, Fin 1]] \<and>
     cvx_entries ch = [Fin 1, Fin 2]"
    by blast
next
  have fi: "finite_indices [Fin 5, NInf] = [0]"
    by (simp add: finite_indices_def)
  have rows: "spec_box_rows (Some [Fin 5, NInf]) None = [[Fin (- 1), Fin 0]]"
    by (simp add: spec_box_rows_def fi)
  have rhs: "spec_box_rhs (Some [Fin 5, NInf]) None = [Fin (- 5)]"
    by (simp add: spec_box_rhs_def fi)
  have g: "rows_of (Some (Csc example_G2)) = [[Fin 0, Fin 3]]"
    by (simp add: rows_of_def example_G2_def coo_entry_def triplets_def numeral_2_eq_2)
  have hh: "entries_of (Some [Fin 4]) = [Fin 4]"
    by (simp add: entries_of_def)
  have a1: "Some [Fin 5, NInf] \<noteq> None \<or> (None :: vector option) \<noteq> None"
    by simp
  have a2: "\<forall>M. Some (Csc example_G2) = Some (Csc M) \<longrightarrow>
           csc_wf M \<and> (\<forall>l. Some [Fin 5, NInf] = Some l \<longrightarrow> length l = snd (csc_shape M)) \<and>
           (\<forall>u. (None :: vector option) = Some u \<longrightarrow> length u = snd (csc_shape M))"
    by (simp add: csc_wf_def example_G2_def)
  have ne: "spec_box_rows (Some [Fin 5, NInf]) None \<noteq> []"
    by (simp add: rows)
  from box_bounds_canonicalized [OF a1 a2, of Map.empty example_P2 example_q2 "Some [Fin 4]"
         None None None None False None None None None None] ne
  obtain options' call cG ch where
    "\<forall>qp. cvxopt_solve_qp qp Map.empty example_P2 example_q2
               (Some (Csc example_G2)) (Some [Fin 4]) None None
               (Some [Fin 5, NInf]) None None None False
               None None None None None =
           (options', case qp options' call of
                        Inl e \<Rightarrow> Inl e | Inr sol \<Rightarrow> solution_or_none example_q2 sol)"
    "call_G call = Some cG" "call_h call = Some ch"
    "cvx_rows cG = rows_of (Some (Csc example_G2)) @ spec_box_rows (Some [Fin 5, NInf]) None"
    "cvx_entries ch = entries_of (Some [Fin 4]) @ spec_box_rhs (Some [Fin 5, NInf]) None"
    by blast
  then have
    "(\<forall>qp. cvxopt_solve_qp qp Map.empty example_P2 example_q2
               (Some (Csc example_G2)) (Some [Fin 4]) None None
               (Some [Fin 5, NInf]) None None None False
               None None None None None =
           (options', case qp options' call of
                        Inl e \<Rightarrow> Inl e | Inr sol \<Rightarrow> solution_or_none example_q2 sol)) \<and>
     call_G call = Some cG \<and> call_h call = Some ch \<and>
     cvx_rows cG = [[Fin 0, Fin 3], [Fin (- 1), Fin 0]] \<and>
     cvx_entries ch = [Fin 4, Fin (- 5)]"
    by (simp only: rows rhs g hh append_Cons append_Nil simp_thms)
  then show "\<exists>options' call cG ch.
     (\<forall>qp. cvxopt_solve_qp qp Map.empty example_P2 example_q2
               (Some (Csc example_G2)) (Some [Fin 4]) None None
               (Some [Fin 5, NInf]) None None None False
               None None None None None =
           (options', case qp options' call of
                        Inl e \<Rightarrow> Inl e | Inr sol \<Rightarrow> solution_or_none example_q2 sol)) \<and>
     call_G call = Some cG \<and> call_h call = Some ch \<and>
     cvx_rows cG = [[Fin 0, Fin 3], [Fin (- 1), Fin 0]] \<and>
     cvx_entries ch = [Fin 4, Fin (- 5)]"
    by blast
qed

section \<open>The two readings of the code agree\<close>

text \<open>
  On arguments that refer to arrays of the expected kinds, and with a solver that only
  reads, the function on the store changes the option table and returns or raises
  exactly as the function on values does.
\<close>

lemma extends_refl: "extends s s"
  by (simp add: extends_def)

lemma extends_trans: "extends s s' \<Longrightarrow> extends s' s'' \<Longrightarrow> extends s s''"
  by (auto simp: extends_def)

lemma holds_extends: "holds s r a \<Longrightarrow> extends s s' \<Longrightarrow> holds s' r a"
  by (auto simp: holds_def extends_def split: option.splits)

lemma to_cvxopt_s_run:
  assumes "holds s (Some M) (Some a)"
  shows "\<exists>s' r. to_cvxopt_s M s = (s', Inr r) \<and> extends s s' \<and> r < next_ref s' \<and>
                 cells s' r = Cvx (to_cvxopt a)"
  using assms
  by (simp add: to_cvxopt_s_def alloc_def holds_def extends_def)

lemma cvx_at_extends:
  "cells s r = Cvx c \<Longrightarrow> r < next_ref s \<Longrightarrow> extends s s' \<Longrightarrow> cvx_at s' r = c"
  by (simp add: cvx_at_def extends_def)

lemma convert_pair_run:
  assumes "holds s G Gv" and "holds s h (as_array hv)"
  shows "\<exists>s' p. convert_pair G h s = (s', Inr p) \<and> extends s s' \<and>
           (\<forall>s''. extends s' s'' \<longrightarrow>
              map_option (cvx_at s'') (fst p) =
                (case (Gv, hv) of (Some G', Some h') \<Rightarrow> Some (to_cvxopt G') | _ \<Rightarrow> None) \<and>
              map_option (cvx_at s'') (snd p) =
                (case (Gv, hv) of (Some G', Some h') \<Rightarrow> Some (to_cvxopt (Ndarray (Array1 h')))
                 | _ \<Rightarrow> None))"
proof (cases "\<exists>g hh. G = Some g \<and> h = Some hh")
  case False
  then have c: "convert_pair G h = return_run (None, None)"
    by (cases G; cases h) (simp_all add: convert_pair_def)
  from False assms have "Gv = None \<or> hv = None"
    by (auto simp: holds_def as_array_def split: option.splits)
  then have "(case (Gv, hv) of (Some G', Some h') \<Rightarrow> Some (f G' h') | _ \<Rightarrow> None) = None" for f :: "array_like \<Rightarrow> vector \<Rightarrow> cvx"
    by (auto split: option.splits)
  then show ?thesis
    by (simp add: c return_run_def extends_refl)
next
  case True
  then obtain g hh where G: "G = Some g" and h: "h = Some hh" by blast
  with assms obtain Ga ha where Gv: "Gv = Some Ga" and hv: "hv = Some ha"
    by (auto simp: holds_def as_array_def split: option.splits)
  from assms(1) G Gv obtain s1 r1 where
    1: "to_cvxopt_s g s = (s1, Inr r1)" "extends s s1" "r1 < next_ref s1"
       "cells s1 r1 = Cvx (to_cvxopt Ga)"
    using to_cvxopt_s_run by blast
  from assms(2) h hv have "holds s (Some hh) (Some (Ndarray (Array1 ha)))"
    by (simp add: as_array_def)
  then have "holds s1 (Some hh) (Some (Ndarray (Array1 ha)))"
    using 1(2) by (rule holds_extends)
  then obtain s2 r2 where
    2: "to_cvxopt_s hh s1 = (s2, Inr r2)" "extends s1 s2" "r2 < next_ref s2"
       "cells s2 r2 = Cvx (to_cvxopt (Ndarray (Array1 ha)))"
    using to_cvxopt_s_run by blast
  have run: "convert_pair G h s = (s2, Inr (Some r1, Some r2))"
    by (simp add: convert_pair_def G h bind_run_def return_run_def 1(1) 2(1))
  have "cvx_at s'' r1 = to_cvxopt Ga \<and> cvx_at s'' r2 = to_cvxopt (Ndarray (Array1 ha))"
    if "extends s2 s''" for s''
    using cvx_at_extends [OF 1(4) 1(3) extends_trans [OF 2(2) that]]
          cvx_at_extends [OF 2(4) 2(3) that]
    by simp
  then show ?thesis
    using run extends_trans [OF 1(2) 2(2)] by (simp add: Gv hv)
qed

lemma initvals_run:
  assumes "holds s initvals (as_array iv)"
  shows "\<exists>s' d. (case initvals of
                    None \<Rightarrow> return_run None
                  | Some v \<Rightarrow> bind_run (to_cvxopt_s v) (\<lambda>x. return_run (Some [(''x'', x)]))) s
                 = (s', Inr d) \<and> extends s s' \<and>
           (\<forall>s''. extends s' s'' \<longrightarrow>
              map_option (map (\<lambda>(k, r). (k, cvx_at s'' r))) d =
                (case iv of None \<Rightarrow> None
                 | Some v \<Rightarrow> Some [(''x'', to_cvxopt (Ndarray (Array1 v)))]))"
proof (cases initvals)
  case None
  with assms have "iv = None"
    by (auto simp: holds_def as_array_def split: option.splits)
  with None show ?thesis
    by (simp add: return_run_def extends_refl)
next
  case (Some v)
  with assms obtain x where iv: "iv = Some x"
    by (auto simp: holds_def as_array_def split: option.splits)
  with assms Some have "holds s (Some v) (Some (Ndarray (Array1 x)))"
    by (simp add: as_array_def)
  then obtain s1 r1 where
    1: "to_cvxopt_s v s = (s1, Inr r1)" "extends s s1" "r1 < next_ref s1"
       "cells s1 r1 = Cvx (to_cvxopt (Ndarray (Array1 x)))"
    using to_cvxopt_s_run by blast
  have "cvx_at s'' r1 = to_cvxopt (Ndarray (Array1 x))" if "extends s1 s''" for s''
    using cvx_at_extends [OF 1(4) 1(3) that] .
  then show ?thesis
    using 1(1,2) by (simp add: Some iv bind_run_def return_run_def)
qed

lemma qp_arguments_s_run:
  assumes "holds s (Some P) (Some Pv)" and "holds s (Some q) (Some (Ndarray (Array1 qv)))"
    and "holds s G Gv" and "holds s h (as_array hv)"
    and "holds s A Av" and "holds s b (as_array bv)"
    and "holds s initvals (as_array iv)"
  shows "\<exists>s' c. qp_arguments_s P q G h A b solver initvals s = (s', Inr c) \<and> extends s s' \<and>
                 load_call s' c = qp_arguments Pv qv Gv hv Av bv solver iv"
proof -
  from assms(1) obtain s1 rP where
    1: "to_cvxopt_s P s = (s1, Inr rP)" "extends s s1" "rP < next_ref s1"
       "cells s1 rP = Cvx (to_cvxopt Pv)"
    using to_cvxopt_s_run by blast
  from holds_extends [OF assms(2) 1(2)] obtain s2 rq where
    2: "to_cvxopt_s q s1 = (s2, Inr rq)" "extends s1 s2" "rq < next_ref s2"
       "cells s2 rq = Cvx (to_cvxopt (Ndarray (Array1 qv)))"
    using to_cvxopt_s_run by blast
  have e2: "extends s s2" using 1(2) 2(2) by (rule extends_trans)
  from convert_pair_run [OF holds_extends [OF assms(3) e2] holds_extends [OF assms(4) e2]]
  obtain s3 pG where
    3: "convert_pair G h s2 = (s3, Inr pG)" "extends s2 s3"
       "\<And>s''. extends s3 s'' \<Longrightarrow>
              map_option (cvx_at s'') (fst pG) =
                (case (Gv, hv) of (Some G', Some h') \<Rightarrow> Some (to_cvxopt G') | _ \<Rightarrow> None) \<and>
              map_option (cvx_at s'') (snd pG) =
                (case (Gv, hv) of (Some G', Some h') \<Rightarrow> Some (to_cvxopt (Ndarray (Array1 h')))
                 | _ \<Rightarrow> None)"
    by blast
  have e3: "extends s s3" using e2 3(2) by (rule extends_trans)
  from convert_pair_run [OF holds_extends [OF assms(5) e3] holds_extends [OF assms(6) e3]]
  obtain s4 pA where
    4: "convert_pair A b s3 = (s4, Inr pA)" "extends s3 s4"
       "\<And>s''. extends s4 s'' \<Longrightarrow>
              map_option (cvx_at s'') (fst pA) =
                (case (Av, bv) of (Some A', Some b') \<Rightarrow> Some (to_cvxopt A') | _ \<Rightarrow> None) \<and>
              map_option (cvx_at s'') (snd pA) =
                (case (Av, bv) of (Some A', Some b') \<Rightarrow> Some (to_cvxopt (Ndarray (Array1 b')))
                 | _ \<Rightarrow> None)"
    by blast
  have e4: "extends s s4" using e3 4(2) by (rule extends_trans)
  from initvals_run [OF holds_extends [OF assms(7) e4]]
  obtain s5 d where
    5: "(case initvals of
           None \<Rightarrow> return_run None
         | Some v \<Rightarrow> bind_run (to_cvxopt_s v) (\<lambda>x. return_run (Some [(''x'', x)]))) s4
          = (s5, Inr d)" "extends s4 s5"
       "\<And>s''. extends s5 s'' \<Longrightarrow>
              map_option (map (\<lambda>(k, r). (k, cvx_at s'' r))) d =
                (case iv of None \<Rightarrow> None
                 | Some v \<Rightarrow> Some [(''x'', to_cvxopt (Ndarray (Array1 v)))])"
    by blast
  let ?c = "\<lparr> ref_P = rP, ref_q = rq, ref_G = fst pG, ref_h = snd pG,
              ref_A = fst pA, ref_b = snd pA, ref_solver = solver, ref_initvals = d \<rparr>"
  have run: "qp_arguments_s P q G h A b solver initvals s = (s5, Inr ?c)"
    by (simp add: qp_arguments_s_def bind_run_def return_run_def 1(1) 2(1) 3(1) 4(1) 5(1))
  have e35: "extends s3 s5" using 4(2) 5(2) by (rule extends_trans)
  have e25: "extends s2 s5" using 3(2) e35 by (rule extends_trans)
  have e15: "extends s1 s5" using 2(2) e25 by (rule extends_trans)
  have "load_call s5 ?c = qp_arguments Pv qv Gv hv Av bv solver iv"
    using cvx_at_extends [OF 1(4) 1(3) e15] cvx_at_extends [OF 2(4) 2(3) e25]
          3(3) [OF e35] 4(3) [OF 5(2)] 5(3) [OF extends_refl]
    by (simp add: load_call_def qp_arguments_def)
  moreover have "extends s s5" using e4 5(2) by (rule extends_trans)
  ultimately show ?thesis using run by blast
qed

lemma load_array_holds: "holds s r a \<Longrightarrow> load_array s r = Inr a"
  by (auto simp: holds_def load_array_def split: option.splits)

lemma load_vector_holds: "holds s r (as_array v) \<Longrightarrow> load_vector s r = Inr v"
  by (auto simp: holds_def load_vector_def as_array_def split: option.splits)

lemma linear_from_box_inequalities_s_run:
  assumes "holds s G Gv" and "holds s h (as_array hv)"
    and "holds s lb (as_array lbv)" and "holds s ub (as_array ubv)"
  shows "\<exists>s' G' h'. linear_from_box_inequalities_s G h lb ub s = (s', Inr (G', h')) \<and>
           extends s s' \<and>
           holds s' G' (fst (linear_from_box_inequalities Gv hv lbv ubv)) \<and>
           holds s' h' (as_array (snd (linear_from_box_inequalities Gv hv lbv ubv)))"
proof (cases "box_rows lbv ubv = []")
  case True
  then have "linear_from_box_inequalities_s G h lb ub s = (s, Inr (G, h))"
    by (simp add: linear_from_box_inequalities_s_def load_array_holds [OF assms(1)]
          load_vector_holds [OF assms(2)] load_vector_holds [OF assms(3)]
          load_vector_holds [OF assms(4)] return_run_def)
  moreover from True have "linear_from_box_inequalities Gv hv lbv ubv = (Gv, hv)"
    by (simp add: linear_from_box_inequalities_def)
  ultimately show ?thesis
    using assms(1,2) by (simp add: extends_refl)
next
  case False
  let ?G1 = "vstack Gv (map fst (box_rows lbv ubv))"
  let ?h1 = "(case hv of None \<Rightarrow> [] | Some x \<Rightarrow> x) @ map snd (box_rows lbv ubv)"
  let ?s1 = "s\<lparr> cells := (cells s)(next_ref s := Array ?G1), next_ref := Suc (next_ref s) \<rparr>"
  let ?s2 = "?s1\<lparr> cells := (cells ?s1)(next_ref ?s1 := Array (Ndarray (Array1 ?h1))),
                  next_ref := Suc (next_ref ?s1) \<rparr>"
  from False have v: "linear_from_box_inequalities Gv hv lbv ubv = (Some ?G1, Some ?h1)"
    by (simp add: linear_from_box_inequalities_def Let_def)
  with False have "linear_from_box_inequalities_s G h lb ub s =
                     (?s2, Inr (Some (next_ref s), Some (Suc (next_ref s))))"
    by (simp add: linear_from_box_inequalities_s_def load_array_holds [OF assms(1)]
          load_vector_holds [OF assms(2)] load_vector_holds [OF assms(3)]
          load_vector_holds [OF assms(4)] return_run_def bind_run_def alloc_def)
  moreover have "extends s ?s2"
    by (simp add: extends_def)
  moreover have "holds ?s2 (Some (next_ref s)) (Some ?G1)"
    by (simp add: holds_def)
  moreover have "holds ?s2 (Some (Suc (next_ref s))) (as_array (Some ?h1))"
    by (simp add: holds_def as_array_def)
  ultimately show ?thesis
    by (simp add: v)
qed

lemma cvxopt_solve_qp_s_refines:
  assumes "holds s (Some P) (Some Pv)" and "holds s (Some q) (Some (Ndarray (Array1 qv)))"
    and "holds s G Gv" and "holds s h (as_array hv)"
    and "holds s A Av" and "holds s b (as_array bv)"
    and "holds s lb (as_array lbv)" and "holds s ub (as_array ubv)"
    and "holds s initvals (as_array iv)"
  shows "\<exists>s'. cvxopt_solve_qp_s (lift_backend qp) options P q G h A b lb ub solver initvals
                 verbose maxiters abstol reltol feastol refinement s =
               (fst (cvxopt_solve_qp qp options Pv qv Gv hv Av bv lbv ubv solver iv
                       verbose maxiters abstol reltol feastol refinement),
                s',
                snd (cvxopt_solve_qp qp options Pv qv Gv hv Av bv lbv ubv solver iv
                       verbose maxiters abstol reltol feastol refinement))"
proof -
  let ?canon = "if lb \<noteq> None \<or> ub \<noteq> None
                then linear_from_box_inequalities_s G h lb ub else return_run (G, h)"
  let ?GH = "if lbv \<noteq> None \<or> ubv \<noteq> None
             then linear_from_box_inequalities Gv hv lbv ubv else (Gv, hv)"
  let ?o = "update_options options verbose maxiters abstol reltol feastol refinement"
  have same: "(lb \<noteq> None \<or> ub \<noteq> None) = (lbv \<noteq> None \<or> ubv \<noteq> None)"
    using assms(7,8) by (auto simp: holds_def as_array_def split: option.splits)
  have "\<exists>s1 G1 h1. ?canon s = (s1, Inr (G1, h1)) \<and> extends s s1 \<and>
          holds s1 G1 (fst ?GH) \<and> holds s1 h1 (as_array (snd ?GH))"
  proof (cases "lb \<noteq> None \<or> ub \<noteq> None")
    case True
    then show ?thesis
      using linear_from_box_inequalities_s_run [OF assms(3,4,7,8)] same by simp
  next
    case False
    then show ?thesis
      using assms(3,4) same by (simp add: return_run_def extends_refl)
  qed
  then obtain s1 G1 h1 where
    1: "?canon s = (s1, Inr (G1, h1))" "extends s s1"
       "holds s1 G1 (fst ?GH)" "holds s1 h1 (as_array (snd ?GH))"
    by blast
  from qp_arguments_s_run [OF holds_extends [OF assms(1) 1(2)] holds_extends [OF assms(2) 1(2)]
         1(3,4) holds_extends [OF assms(5) 1(2)] holds_extends [OF assms(6) 1(2)]
         holds_extends [OF assms(9) 1(2)]]
  obtain s2 c where
    2: "qp_arguments_s P q G1 h1 A b solver initvals s1 = (s2, Inr c)" "extends s1 s2"
       "load_call s2 c = qp_arguments Pv qv (fst ?GH) (snd ?GH) Av bv solver iv"
    by blast
  from holds_extends [OF assms(2) extends_trans [OF 1(2) 2(2)]]
  have q: "shape0 (cells s2 q) = length qv"
    by (simp add: holds_def)
  have run: "bind_run (qp_arguments_s P q G1 h1 A b solver initvals) (lift_backend qp ?o) s1 =
               (s2, qp ?o (qp_arguments Pv qv (fst ?GH) (snd ?GH) Av bv solver iv))"
    by (simp add: bind_run_def 2(1) lift_backend_def 2(3))
  show ?thesis
  proof (cases "qp ?o (qp_arguments Pv qv (fst ?GH) (snd ?GH) Av bv solver iv)")
    case (Inl e)
    then show ?thesis
      using 1(1) run
      by (simp add: cvxopt_solve_qp_s_def cvxopt_solve_qp_invokes Let_def)
  next
    case (Inr sol)
    then show ?thesis
      using 1(1) run q
      by (simp add: cvxopt_solve_qp_s_def cvxopt_solve_qp_invokes Let_def solution_or_none_def)
  qed
qed

section \<open>The caller's arrays\<close>

text \<open>Each step of the function leaves the objects allocated before the call alone.\<close>

lemma frame_return: "Q x \<Longrightarrow> frame n (return_run x) Q"
  by (simp add: frame_def return_run_def)

lemma frame_raise: "frame n (raise_run e) Q"
  by (simp add: frame_def raise_run_def)

lemma frame_alloc: "frame n (alloc x) (\<lambda>r. n \<le> r)"
  by (simp add: frame_def alloc_def)

lemma frame_bind:
  assumes "frame n m Q" and "\<And>x. Q x \<Longrightarrow> frame n (f x) R"
  shows "frame n (bind_run m f) R"
  unfolding frame_def
proof (intro allI impI)
  fix s :: store
  assume n: "n \<le> next_ref s"
  obtain s' r where ms: "m s = (s', r)" by (cases "m s")
  from assms(1) n ms have 1: "n \<le> next_ref s'" "\<forall>x<n. cells s' x = cells s x"
    "\<forall>v. r = Inr v \<longrightarrow> Q v"
    unfolding frame_def by (metis fst_conv snd_conv)+
  show "n \<le> next_ref (fst (bind_run m f s)) \<and>
        (\<forall>r<n. cells (fst (bind_run m f s)) r = cells s r) \<and>
        (\<forall>v. snd (bind_run m f s) = Inr v \<longrightarrow> R v)"
  proof (cases r)
    case (Inl e)
    then show ?thesis using 1 ms by (simp add: bind_run_def)
  next
    case (Inr x)
    with 1 have "Q x" by simp
    then have "frame n (f x) R" by (rule assms(2))
    with 1(1) have "n \<le> next_ref (fst (f x s'))" "\<forall>y<n. cells (fst (f x s')) y = cells s' y"
      "\<forall>v. snd (f x s') = Inr v \<longrightarrow> R v"
      unfolding frame_def by blast+
    then show ?thesis using 1 ms Inr by (simp add: bind_run_def)
  qed
qed

lemma frame_weaken: "frame n m Q \<Longrightarrow> (\<And>x. Q x \<Longrightarrow> R x) \<Longrightarrow> frame n m R"
  unfolding frame_def by blast

lemma frame_to_cvxopt_s: "frame n (to_cvxopt_s M) (\<lambda>r. n \<le> r)"
  unfolding frame_def to_cvxopt_s_def
  by (auto simp: alloc_def raise_run_def split: obj.split)

lemma frame_convert_pair:
  "frame n (convert_pair G h)
     (\<lambda>p. (\<forall>r \<in> set_option (fst p). n \<le> r) \<and> (\<forall>r \<in> set_option (snd p). n \<le> r))"
proof (cases "\<exists>G' h'. G = Some G' \<and> h = Some h'")
  case True
  then obtain G' h' where "G = Some G'" "h = Some h'" by blast
  then show ?thesis
    unfolding convert_pair_def
    by (auto intro!: frame_bind [OF frame_to_cvxopt_s] frame_return)
next
  case False
  then have "convert_pair G h = return_run (None, None)"
    by (cases G; cases h) (simp_all add: convert_pair_def)
  then show ?thesis by (simp add: frame_return)
qed

lemma frame_qp_arguments_s:
  "frame n (qp_arguments_s P q G h A b solver initvals) (\<lambda>c. \<forall>r \<in> call_refs c. n \<le> r)"
  unfolding qp_arguments_s_def
proof (intro frame_bind [OF frame_to_cvxopt_s] frame_bind [OF frame_convert_pair])
  fix Pc qc :: ref and Gh Ab :: "ref option \<times> ref option"
  assume P: "n \<le> Pc" and q: "n \<le> qc"
    and Gh: "(\<forall>r \<in> set_option (fst Gh). n \<le> r) \<and> (\<forall>r \<in> set_option (snd Gh). n \<le> r)"
    and Ab: "(\<forall>r \<in> set_option (fst Ab). n \<le> r) \<and> (\<forall>r \<in> set_option (snd Ab). n \<le> r)"
  have iv: "frame n (case initvals of
                 None \<Rightarrow> return_run None
               | Some v \<Rightarrow> bind_run (to_cvxopt_s v) (\<lambda>x. return_run (Some [(''x'', x)])))
              (\<lambda>iv. \<forall>d. iv = Some d \<longrightarrow> (\<forall>r \<in> snd ` set d. n \<le> r))"
    by (cases initvals) (auto intro!: frame_bind [OF frame_to_cvxopt_s] frame_return)
  show "frame n
          (bind_run (case initvals of
                 None \<Rightarrow> return_run None
               | Some v \<Rightarrow> bind_run (to_cvxopt_s v) (\<lambda>x. return_run (Some [(''x'', x)])))
             (\<lambda>iv. return_run
                \<lparr> ref_P = Pc, ref_q = qc, ref_G = fst Gh, ref_h = snd Gh,
                  ref_A = fst Ab, ref_b = snd Ab, ref_solver = solver, ref_initvals = iv \<rparr>))
          (\<lambda>c. \<forall>r \<in> call_refs c. n \<le> r)"
  proof (rule frame_bind [OF iv])
    fix iv :: "(string \<times> ref) list option"
    assume "\<forall>d. iv = Some d \<longrightarrow> (\<forall>r \<in> snd ` set d. n \<le> r)"
    then show "frame n (return_run
                \<lparr> ref_P = Pc, ref_q = qc, ref_G = fst Gh, ref_h = snd Gh,
                  ref_A = fst Ab, ref_b = snd Ab, ref_solver = solver, ref_initvals = iv \<rparr>)
               (\<lambda>c. \<forall>r \<in> call_refs c. n \<le> r)"
      using P q Gh Ab
      by (intro frame_return) (auto simp: call_refs_def split: option.splits)
  qed
qed

lemma frame_backend:
  assumes "respects_frame qp" and "\<forall>r \<in> call_refs c. n \<le> r"
  shows "frame n (qp options c) (\<lambda>sol. True)"
  unfolding frame_def
proof (intro allI impI conjI)
  fix s :: store
  assume n: "n \<le> next_ref s"
  from assms(1) have *: "next_ref s \<le> next_ref (fst (qp options c s))"
    and **: "\<And>r. r < next_ref s \<Longrightarrow> r \<notin> call_refs c \<Longrightarrow>
                  cells (fst (qp options c s)) r = cells s r"
    unfolding respects_frame_def by blast+
  from * n show "n \<le> next_ref (fst (qp options c s))" by simp
  fix r assume r: "r < n"
  with assms(2) have "r \<notin> call_refs c" by auto
  with r n ** show "cells (fst (qp options c s)) r = cells s r" by simp
qed simp

lemma frame_linear_from_box_inequalities_s:
  "frame n (linear_from_box_inequalities_s G h lb ub) (\<lambda>p. True)"
proof -
  have a: "frame n (bind_run (alloc (Array G1))
                      (\<lambda>G'. bind_run (alloc (Array (Ndarray (Array1 h1))))
                        (\<lambda>h'. return_run (Some G', Some h')))) (\<lambda>p. True)" for G1 h1
    by (intro frame_bind [OF frame_alloc] frame_return TrueI)
  have b: "frame n (return_run (G, h)) (\<lambda>p. True)"
    by (simp add: frame_return)
  have c: "frame n (raise_run e :: (ref option \<times> ref option) run) (\<lambda>p. True)" for e
    by (rule frame_raise)
  show ?thesis
    unfolding frame_def linear_from_box_inequalities_s_def
    using a b c unfolding frame_def
    by (auto split: sum.split prod.split option.split)
qed

lemma respects_frame_scribbling_backend: "respects_frame scribbling_backend"
  by (simp add: respects_frame_def scribbling_backend_def call_refs_def)

text \<open>
  Claim C8. Whatever the arguments, every object allocated before the call, so each of
  the caller's arrays \<open>P\<close>, \<open>q\<close>, \<open>G\<close>, \<open>h\<close>, \<open>A\<close>, \<open>b\<close>, \<open>lb\<close>, \<open>ub\<close> and
  \<open>initvals\<close>, is after the call what it was before, whether the call returns or
  raises: the function writes to no array, and the solver is handed only the copies
  that \<open>to_cvxopt\<close> made. The solver library is assumed to touch only what it is
  handed.
\<close>

theorem inputs_not_mutated:
  assumes "respects_frame qp" and "r < next_ref s"
  shows "cells (fst (snd (cvxopt_solve_qp_s qp options P q G h A b lb ub solver initvals
                             verbose maxiters abstol reltol feastol refinement s))) r
           = cells s r"
proof -
  let ?n = "next_ref s"
  let ?canon = "if lb \<noteq> None \<or> ub \<noteq> None
                then linear_from_box_inequalities_s G h lb ub else return_run (G, h)"
  let ?o = "update_options options verbose maxiters abstol reltol feastol refinement"
  have canon: "frame ?n ?canon (\<lambda>p. True)"
    by (simp add: frame_linear_from_box_inequalities_s frame_return)
  obtain s1 r1 where c1: "?canon s = (s1, r1)" by (cases "?canon s")
  with canon have s1: "?n \<le> next_ref s1" "\<forall>x<?n. cells s1 x = cells s x"
    unfolding frame_def by (metis fst_conv order_refl)+
  show ?thesis
  proof (cases r1)
    case (Inl e)
    then show ?thesis
      using c1 s1 assms(2) by (simp add: cvxopt_solve_qp_s_def)
  next
    case (Inr p)
    obtain G1 h1 where p: "p = (G1, h1)" by (cases p)
    let ?run = "bind_run (qp_arguments_s P q G1 h1 A b solver initvals) (qp ?o)"
    have "frame ?n ?run (\<lambda>sol. True)"
      by (rule frame_bind [OF frame_qp_arguments_s]) (rule frame_backend [OF assms(1)])
    with s1(1) have s2: "\<forall>x<?n. cells (fst (?run s1)) x = cells s1 x"
      unfolding frame_def by blast
    obtain s2 r2 where c2: "?run s1 = (s2, r2)" by (cases "?run s1")
    with s2 s1(2) assms(2) have "cells s2 r = cells s r" by simp
    then show ?thesis
      using c1 Inr p c2
      by (cases r2) (simp_all add: cvxopt_solve_qp_s_def Let_def)
  qed
qed

theorem inputs_not_mutated_witness:
  "cells (fst (snd (cvxopt_solve_qp_s scribbling_backend Map.empty 0 1
                      None None None None None None None None False
                      None None None None None example_store))) 0 = Array example_P \<and>
   cells (fst (snd (cvxopt_solve_qp_s scribbling_backend Map.empty 0 1
                      None None None None None None None None False
                      None None None None None example_store))) 1
     = Array (Ndarray (Array1 example_q)) \<and>
   cells (fst (snd (cvxopt_solve_qp_s scribbling_backend Map.empty 0 1
                      None None None None None None None None False
                      None None None None None example_store))) 2
     = Cvx (CvxMatrix (Array2 []))"
proof -
  let ?s = "fst (snd (cvxopt_solve_qp_s scribbling_backend Map.empty 0 1
                      None None None None None None None None False
                      None None None None None example_store))"
  have "cells ?s 0 = cells example_store 0"
    by (rule inputs_not_mutated [OF respects_frame_scribbling_backend])
       (simp add: example_store_def)
  moreover have "cells ?s 1 = cells example_store 1"
    by (rule inputs_not_mutated [OF respects_frame_scribbling_backend])
       (simp add: example_store_def)
  moreover have "cells ?s 2 = Cvx (CvxMatrix (Array2 []))"
    by (simp add: cvxopt_solve_qp_s_def return_run_def bind_run_def qp_arguments_s_def
                  convert_pair_def to_cvxopt_s_def alloc_def scribbling_backend_def
                  example_store_def Let_def)
  ultimately show ?thesis
    by (simp add: example_store_def)
qed

end
